theory Spec2Isabelle
  imports Complex_Main "HOL-Library.Word" "HOL-Library.Log_Nat" "HOL-Library.List_Lexorder"
    "HOL-Library.Sublist"
begin

section \<open>Strings and the Unicode character database\<close>

text \<open>
  A Python \<^verbatim>\<open>str\<close> is a sequence of Unicode code points, and \<^verbatim>\<open>len\<close> counts code
  points. Code points are natural numbers here; an ASCII literal of the source is written
  \<open>cps ''...''\<close>.
\<close>

type_synonym cp = nat
type_synonym str = "cp list"
type_synonym bytes = "8 word list"

definition cps :: "string \<Rightarrow> str" where
  "cps s = map of_char s"

text \<open>
  What the source asks of the Python runtime about characters: \<^verbatim>\<open>str.lower\<close>,
  \<^verbatim>\<open>str.isspace\<close> (also the regular expression class \<^verbatim>\<open>\s\<close> and the characters removed by
  \<^verbatim>\<open>str.strip()\<close>), \<^verbatim>\<open>str.isdigit\<close>, the classes \<^verbatim>\<open>\w\<close> and \<^verbatim>\<open>\d\<close>, and which text
  character matches which pattern character under \<^verbatim>\<open>re.IGNORECASE\<close>. These tables are not
  part of the repository; every function that consults them takes them as the parameter
  \<open>U\<close>.
\<close>

record ucd =
  lower :: "str \<Rightarrow> str"
  isspace :: "cp \<Rightarrow> bool"
  isdigit :: "cp \<Rightarrow> bool"
  isword :: "cp \<Rightarrow> bool"
  isdecimal :: "cp \<Rightarrow> bool"
  ignorecase :: "cp \<Rightarrow> cp \<Rightarrow> bool"

text \<open>The tables restricted to ASCII, where every Unicode version agrees.\<close>

definition ascii_upper :: "cp \<Rightarrow> bool" where
  "ascii_upper c = (65 \<le> c \<and> c \<le> 90)"

definition ascii_lower :: "cp \<Rightarrow> bool" where
  "ascii_lower c = (97 \<le> c \<and> c \<le> 122)"

definition ascii_digit :: "cp \<Rightarrow> bool" where
  "ascii_digit c = (48 \<le> c \<and> c \<le> 57)"

definition ascii_space :: "cp \<Rightarrow> bool" where
  "ascii_space c = ((9 \<le> c \<and> c \<le> 13) \<or> (28 \<le> c \<and> c \<le> 32))"

definition ascii_tolower :: "cp \<Rightarrow> cp" where
  "ascii_tolower c = (if ascii_upper c then c + 32 else c)"

definition ascii_ucd :: ucd where
  "ascii_ucd = \<lparr>
     lower = map ascii_tolower,
     isspace = ascii_space,
     isdigit = ascii_digit,
     isword = (\<lambda>c. ascii_upper c \<or> ascii_lower c \<or> ascii_digit c \<or> c = 95),
     isdecimal = ascii_digit,
     ignorecase = (\<lambda>c p. ascii_tolower c = ascii_tolower p) \<rparr>"

text \<open>\<^verbatim>\<open>s.strip(chars)\<close>, \<^verbatim>\<open>s.strip()\<close> and \<^verbatim>\<open>sep.join(xs)\<close>.\<close>

definition strip_chars :: "(cp \<Rightarrow> bool) \<Rightarrow> str \<Rightarrow> str" where
  "strip_chars p s = rev (dropWhile p (rev (dropWhile p s)))"

definition strip :: "ucd \<Rightarrow> str \<Rightarrow> str" where
  "strip U s = strip_chars (isspace U) s"

fun join :: "str \<Rightarrow> str list \<Rightarrow> str" where
  "join sep [] = []"
| "join sep [x] = x"
| "join sep (x # y # ys) = x @ sep @ join sep (y # ys)"

section \<open>Extraction\<close>

datatype error = Decoder_Error | HTTP_400 string

record extraction_meta =
  method_name :: string
  pages :: nat
  per_page_characters :: "nat list"

text \<open>
  The PDF and DOCX decoders are external libraries. A PDF decoder is a function from the
  bytes to the texts of the pages (\<open>None\<close> for a page whose text the library reports
  as \<^verbatim>\<open>None\<close>), or an error when the library raises. \<open>fitz\<close> is \<open>None\<close> when PyMuPDF is not
  installed. A DOCX document is its paragraphs' texts and, for each table, the rows of
  cell texts.
\<close>

record docx_document =
  paragraphs :: "str list"
  tables :: "str list list list"

record decoders =
  fitz :: "(bytes \<Rightarrow> error + str option list) option"
  pdfplumber :: "bytes \<Rightarrow> error + str option list"
  docx :: "bytes \<Rightarrow> error + docx_document"

definition or_empty :: "str option \<Rightarrow> str" where
  "or_empty t = (case t of None \<Rightarrow> [] | Some s \<Rightarrow> s)"

definition extract_text_pdf_pymupdf ::
  "decoders \<Rightarrow> ucd \<Rightarrow> bytes \<Rightarrow> nat \<Rightarrow> error + str \<times> extraction_meta" where
  "extract_text_pdf_pymupdf D U pdf_bytes max_pages =
     (case fitz D of
        None \<Rightarrow> Inr ([], \<lparr>method_name = ''pymupdf_unavailable'', pages = 0, per_page_characters = []\<rparr>)
      | Some open_doc \<Rightarrow>
          (case open_doc pdf_bytes of
             Inl e \<Rightarrow> Inl e
           | Inr doc \<Rightarrow>
               let parts = map or_empty (take (min max_pages (length doc)) doc)
               in Inr (strip U (join [10] parts),
                       \<lparr>method_name = ''pymupdf'', pages = length doc,
                        per_page_characters = map length parts\<rparr>)))"

definition extract_text_pdf_pdfplumber ::
  "decoders \<Rightarrow> ucd \<Rightarrow> bytes \<Rightarrow> nat \<Rightarrow> error + str \<times> extraction_meta" where
  "extract_text_pdf_pdfplumber D U pdf_bytes max_pages =
     (case pdfplumber D pdf_bytes of
        Inl e \<Rightarrow> Inl e
      | Inr pdf \<Rightarrow>
          let parts = map or_empty (take max_pages pdf)
          in Inr (strip U (join [10] parts),
                  \<lparr>method_name = ''pdfplumber'', pages = length pdf,
                   per_page_characters = map length parts\<rparr>))"

text \<open>
  The metadata the coordinator returns is the dictionary
  \<^verbatim>\<open>{"primary": ..., "fallback": ...}\<close>; the empty dictionary \<^verbatim>\<open>{}\<close> under \<^verbatim>\<open>"fallback"\<close>
  (the fallback never ran) is \<open>None\<close>.
\<close>

record pdf_meta =
  primary :: extraction_meta
  fallback :: "extraction_meta option"

text \<open>
  Which strategies ran is an effect of the coordinator. It is made visible by a log: each
  call of a strategy appends the strategy's name to the log that is threaded through.
\<close>

datatype strategy = PyMuPDF | PdfPlumber

definition run_pymupdf ::
  "decoders \<Rightarrow> ucd \<Rightarrow> bytes \<Rightarrow> strategy list \<Rightarrow> (error + str \<times> extraction_meta) \<times> strategy list" where
  "run_pymupdf D U pdf_bytes calls = (extract_text_pdf_pymupdf D U pdf_bytes 8, calls @ [PyMuPDF])"

definition run_pdfplumber ::
  "decoders \<Rightarrow> ucd \<Rightarrow> bytes \<Rightarrow> strategy list \<Rightarrow> (error + str \<times> extraction_meta) \<times> strategy list" where
  "run_pdfplumber D U pdf_bytes calls = (extract_text_pdf_pdfplumber D U pdf_bytes 8, calls @ [PdfPlumber])"

definition extract_text_from_pdf ::
  "decoders \<Rightarrow> ucd \<Rightarrow> bytes \<Rightarrow> strategy list \<Rightarrow> (error + str \<times> pdf_meta) \<times> strategy list" where
  "extract_text_from_pdf D U pdf_bytes calls =
     (case run_pymupdf D U pdf_bytes calls of
        (Inl e, calls1) \<Rightarrow> (Inl e, calls1)
      | (Inr (text1, meta1), calls1) \<Rightarrow>
          if length text1 < 200 then
            (case run_pdfplumber D U pdf_bytes calls1 of
               (Inl e, calls2) \<Rightarrow> (Inl e, calls2)
             | (Inr (text2, meta2), calls2) \<Rightarrow>
                 if length text2 > length text1
                 then (Inr (text2, \<lparr>primary = meta2, fallback = Some meta1\<rparr>), calls2)
                 else (Inr (text1, \<lparr>primary = meta1, fallback = Some meta2\<rparr>), calls2))
          else (Inr (text1, \<lparr>primary = meta1, fallback = None\<rparr>), calls1))"

definition extract_text_from_docx ::
  "decoders \<Rightarrow> ucd \<Rightarrow> bytes \<Rightarrow> error + str \<times> nat \<times> nat" where
  "extract_text_from_docx D U docx_bytes =
     (case docx D docx_bytes of
        Inl e \<Rightarrow> Inl e
      | Inr doc \<Rightarrow>
          let parts1 = map (strip U) (filter (\<lambda>p. p \<noteq> [] \<and> strip U p \<noteq> []) (paragraphs doc));
              rows = map (\<lambda>row. join (cps '' | '')
                             (map (strip U) (filter (\<lambda>c. c \<noteq> [] \<and> strip U c \<noteq> []) row)))
                         (concat (tables doc));
              parts = parts1 @ filter (\<lambda>row_text. row_text \<noteq> []) rows
          in Inr (strip U (join [10] parts), length (paragraphs doc), length (tables doc)))"

section \<open>Regular expressions\<close>

text \<open>
  The patterns of the source use character classes, greedy repetition of a class,
  optional groups, alternation, literals and the word boundary \<^verbatim>\<open>\b\<close>. \<open>Rep p lo hi\<close> is
  the class \<open>p\<close> repeated between \<open>lo\<close> and \<open>hi\<close> times (\<open>None\<close>: no upper bound).

  \<open>rx_match w r prev rest\<close> lists the lengths of the matches of \<open>r\<close> that start at the
  current position, in the order in which a backtracking matcher tries them (greedy
  repetition: longest first; alternation: left first). \<open>prev\<close> is the text in front of
  the position, reversed; \<open>rest\<close> is the text from the position on; \<open>w\<close> is the class
  \<^verbatim>\<open>\w\<close>. The head of the list is the match that Python's \<^verbatim>\<open>re\<close> reports at that position.
\<close>

datatype rx =
    Cls "cp \<Rightarrow> bool"
  | Rep "cp \<Rightarrow> bool" nat "nat option"
  | Seq rx rx
  | Alt rx rx
  | Eps
  | WordB

definition word_at :: "(cp \<Rightarrow> bool) \<Rightarrow> str \<Rightarrow> bool" where
  "word_at w s = (case s of [] \<Rightarrow> False | c # _ \<Rightarrow> w c)"

definition rep_lengths :: "(cp \<Rightarrow> bool) \<Rightarrow> nat \<Rightarrow> nat option \<Rightarrow> str \<Rightarrow> nat list" where
  "rep_lengths p lo hi s =
     (let n = length (takeWhile p s);
          m = (case hi of None \<Rightarrow> n | Some h \<Rightarrow> min n h)
      in if m < lo then [] else rev [lo ..< Suc m])"

fun rx_match :: "(cp \<Rightarrow> bool) \<Rightarrow> rx \<Rightarrow> str \<Rightarrow> str \<Rightarrow> nat list" where
  "rx_match w (Cls p) prev rest =
     (case rest of [] \<Rightarrow> [] | c # _ \<Rightarrow> if p c then [1] else [])"
| "rx_match w (Rep p lo hi) prev rest = rep_lengths p lo hi rest"
| "rx_match w (Seq r1 r2) prev rest =
     concat (map (\<lambda>n. map (\<lambda>k. n + k)
                          (rx_match w r2 (rev (take n rest) @ prev) (drop n rest)))
                 (rx_match w r1 prev rest))"
| "rx_match w (Alt r1 r2) prev rest = rx_match w r1 prev rest @ rx_match w r2 prev rest"
| "rx_match w Eps prev rest = [0]"
| "rx_match w WordB prev rest = (if word_at w prev \<noteq> word_at w rest then [0] else [])"

text \<open>
  Scanning a text from left to right, as \<^verbatim>\<open>finditer\<close>, \<^verbatim>\<open>findall\<close>, \<^verbatim>\<open>sub\<close> and \<^verbatim>\<open>split\<close> do:
  at each position the first match is taken and the scan goes on behind it; where nothing
  matches, the character is passed over. The result lists the characters passed over
  (\<open>Inl\<close>) and the matches (\<open>Inr\<close>) in text order. \<open>skip\<close> counts the characters of the
  last match still to be stepped over.
\<close>

fun scan :: "(cp \<Rightarrow> bool) \<Rightarrow> rx \<Rightarrow> nat \<Rightarrow> str \<Rightarrow> str \<Rightarrow> (cp + str) list" where
  "scan w r skip prev [] =
     (if skip = 0 \<and> rx_match w r prev [] \<noteq> [] then [Inr []] else [])"
| "scan w r skip prev (c # cs) =
     (if 0 < skip then scan w r (skip - 1) (c # prev) cs
      else (case rx_match w r prev (c # cs) of
              [] \<Rightarrow> Inl c # scan w r 0 (c # prev) cs
            | n # _ \<Rightarrow>
                if n = 0 then Inr [] # Inl c # scan w r 0 (c # prev) cs
                else Inr (take n (c # cs)) # scan w r (n - 1) (c # prev) cs))"

definition matches :: "(cp + str) list \<Rightarrow> str list" where
  "matches ps = concat (map (\<lambda>p. case p of Inl c \<Rightarrow> [] | Inr m \<Rightarrow> [m]) ps)"

definition re_findall :: "ucd \<Rightarrow> rx \<Rightarrow> str \<Rightarrow> str list" where
  "re_findall U r s = matches (scan (isword U) r 0 [] s)"

definition re_sub :: "ucd \<Rightarrow> rx \<Rightarrow> str \<Rightarrow> str \<Rightarrow> str" where
  "re_sub U r repl s =
     concat (map (\<lambda>p. case p of Inl c \<Rightarrow> [c] | Inr m \<Rightarrow> repl) (scan (isword U) r 0 [] s))"

fun split_pieces :: "(cp + str) list \<Rightarrow> str \<Rightarrow> str list" where
  "split_pieces [] cur = [rev cur]"
| "split_pieces (Inl c # ps) cur = split_pieces ps (c # cur)"
| "split_pieces (Inr m # ps) cur = rev cur # split_pieces ps []"

definition re_split :: "ucd \<Rightarrow> rx \<Rightarrow> str \<Rightarrow> str list" where
  "re_split U r s = split_pieces (scan (isword U) r 0 [] s) []"

text \<open>Building blocks for writing the patterns down.\<close>

definition seqs :: "rx list \<Rightarrow> rx" where
  "seqs rs = foldr Seq rs Eps"

definition opt :: "rx \<Rightarrow> rx" where
  "opt r = Alt r Eps"

definition chr :: "cp \<Rightarrow> rx" where
  "chr p = Cls (\<lambda>c. c = p)"

definition lit :: "string \<Rightarrow> rx" where
  "lit s = seqs (map chr (cps s))"

definition one_of :: "string \<Rightarrow> cp \<Rightarrow> bool" where
  "one_of s c = (c \<in> set (cps s))"

definition in_range :: "char \<Rightarrow> char \<Rightarrow> cp \<Rightarrow> bool" where
  "in_range a b c = (of_char a \<le> c \<and> c \<le> of_char b)"

definition alpha :: "cp \<Rightarrow> bool" where
  "alpha c = (in_range CHR ''A'' CHR ''Z'' c \<or> in_range CHR ''a'' CHR ''z'' c)"

definition alnum :: "cp \<Rightarrow> bool" where
  "alnum c = (alpha c \<or> in_range CHR ''0'' CHR ''9'' c)"

text \<open>
  Under \<^verbatim>\<open>re.IGNORECASE\<close> a text character matches a pattern character when the runtime
  says so (\<open>ignorecase U\<close>), and it matches a class when it matches one of the class's
  characters.
\<close>

definition chr_i :: "ucd \<Rightarrow> cp \<Rightarrow> rx" where
  "chr_i U p = Cls (\<lambda>c. ignorecase U c p)"

definition lit_i :: "ucd \<Rightarrow> string \<Rightarrow> rx" where
  "lit_i U s = seqs (map (chr_i U) (cps s))"

definition one_of_i :: "ucd \<Rightarrow> string \<Rightarrow> cp \<Rightarrow> bool" where
  "one_of_i U s c = list_ex (ignorecase U c) (cps s)"

definition bullet :: cp where
  "bullet = 8226"

definition middle_dot :: cp where
  "middle_dot = 183"

section \<open>Parsing\<close>

definition uppers :: string where
  "uppers = ''ABCDEFGHIJKLMNOPQRSTUVWXYZ''"

definition lowers :: string where
  "lowers = ''abcdefghijklmnopqrstuvwxyz''"

definition digits :: string where
  "digits = ''0123456789''"

definition space_or_dash :: "ucd \<Rightarrow> cp \<Rightarrow> bool" where
  "space_or_dash U c = (isspace U c \<or> c = of_char CHR ''-'')"

definition EMAIL_RE :: "ucd \<Rightarrow> rx" where
  "EMAIL_RE U = seqs [
     WordB,
     Rep (one_of_i U (uppers @ digits @ ''._%+-'')) 1 None,
     chr_i U (of_char CHR ''@''),
     Rep (one_of_i U (uppers @ digits @ ''.-'')) 1 None,
     chr_i U (of_char CHR ''.''),
     Rep (one_of_i U uppers) 2 None,
     WordB]"

definition PHONE_RE :: "ucd \<Rightarrow> rx" where
  "PHONE_RE U = seqs [
     opt (seqs [Alt (lit ''+'') (lit ''00''), Rep (isdecimal U) 1 (Some 3),
                Rep (space_or_dash U) 0 (Some 1)]),
     opt (seqs [Rep (one_of ''('') 0 (Some 1), Rep (isdecimal U) 2 (Some 4),
                Rep (one_of '')'') 0 (Some 1), Rep (space_or_dash U) 0 (Some 1)]),
     Rep (isdecimal U) 3 (Some 4),
     Rep (space_or_dash U) 0 (Some 1),
     Rep (isdecimal U) 3 (Some 4),
     WordB]"

definition LINKEDIN_RE :: "ucd \<Rightarrow> rx" where
  "LINKEDIN_RE U = seqs [
     opt (seqs [lit_i U ''http'', Rep (one_of_i U ''s'') 0 (Some 1), lit_i U ''://'']),
     opt (lit_i U ''www.''),
     lit_i U ''linkedin.com/'',
     Rep (one_of_i U (uppers @ lowers @ digits @ ''_/-%.'')) 1 None]"

definition GITHUB_RE :: "ucd \<Rightarrow> rx" where
  "GITHUB_RE U = seqs [
     opt (seqs [lit_i U ''http'', Rep (one_of_i U ''s'') 0 (Some 1), lit_i U ''://'']),
     opt (lit_i U ''www.''),
     lit_i U ''github.com/'',
     Rep (one_of_i U (uppers @ lowers @ digits @ ''_-%.'')) 1 None]"

definition PORTFOLIO_RE :: rx where
  "PORTFOLIO_RE = seqs [
     WordB,
     opt (seqs [lit ''http'', Rep (one_of ''s'') 0 (Some 1), lit ''://'']),
     Rep (\<lambda>c. alnum c \<or> one_of ''.-'' c) 1 None,
     lit ''.'',
     Rep alpha 2 None,
     opt (seqs [lit ''/'', Rep (\<lambda>c. alnum c \<or> one_of ''_/-%.'' c) 1 None]),
     WordB]"

definition SECTION_ALIASES :: "(string \<times> string list) list" where
  "SECTION_ALIASES = [
     (''summary'', [''summary'', ''profile'', ''about'', ''about me'', ''professional summary'',
                    ''career summary'', ''objective'']),
     (''skills'', [''skills'', ''technical skills'', ''core skills'', ''key skills'',
                   ''competencies'', ''tools'', ''technologies'']),
     (''experience'', [''experience'', ''work experience'', ''employment'',
                       ''professional experience'', ''work history'', ''internship'']),
     (''education'', [''education'', ''academics'', ''academic background'', ''qualifications'']),
     (''projects'', [''projects'', ''personal projects'', ''selected projects'']),
     (''certifications'', [''certifications'', ''certificates'', ''licenses'', ''training'']),
     (''languages'', [''languages'', ''language''])]"

definition normalize :: "ucd \<Rightarrow> str \<Rightarrow> str" where
  "normalize U s = re_sub U (Rep (isspace U) 1 None) (cps '' '') (strip U s)"

text \<open>
  \<^verbatim>\<open>str.splitlines\<close>: a line ends at a line feed, vertical tab, form feed, carriage
  return (with a following line feed), file, group or record separator, next line, line
  separator or paragraph separator; the line ends are dropped.
\<close>

definition is_linebreak :: "cp \<Rightarrow> bool" where
  "is_linebreak c = (c \<in> {10, 11, 12, 13, 28, 29, 30, 133, 8232, 8233})"

fun splitlines_from :: "str \<Rightarrow> str \<Rightarrow> str list" where
  "splitlines_from cur [] = (if cur = [] then [] else [rev cur])"
| "splitlines_from cur [c] = (if is_linebreak c then [rev cur] else [rev (c # cur)])"
| "splitlines_from cur (c # d # cs) =
     (if c = 13 \<and> d = 10 then rev cur # splitlines_from [] cs
      else if is_linebreak c then rev cur # splitlines_from [] (d # cs)
      else splitlines_from (c # cur) (d # cs))"

definition splitlines :: "str \<Rightarrow> str list" where
  "splitlines text = splitlines_from [] text"

definition lines_from_text :: "ucd \<Rightarrow> str \<Rightarrow> str list" where
  "lines_from_text U text = map (strip U) (filter (\<lambda>l. strip U l \<noteq> []) (splitlines text))"

text \<open>\<^verbatim>\<open>b in s\<close> for strings: \<open>b\<close> occurs in \<open>s\<close> as a substring.\<close>

fun contains :: "str \<Rightarrow> str \<Rightarrow> bool" where
  "contains b [] = (b = [])"
| "contains b (c # cs) = (take (length b) (c # cs) = b \<or> contains b cs)"

definition heading_chars :: "cp \<Rightarrow> bool" where
  "heading_chars c = (c \<in> set (cps '':-'' @ [bullet] @ cps ''* ''))"

definition blacklist :: "str list" where
  "blacklist = [cps ''curriculum vitae'', cps ''resume'', cps ''cv'']"

definition name_word :: "cp \<Rightarrow> bool" where
  "name_word c = (alpha c \<or> (192 \<le> c \<and> c \<le> 214) \<or> (216 \<le> c \<and> c \<le> 246) \<or> (248 \<le> c \<and> c \<le> 255))"

text \<open>\<^verbatim>\<open>l.lower().strip(":-\<bullet>* ").strip()\<close>, where \<^verbatim>\<open>\<bullet>\<close> is the bullet U+2022.\<close>

definition lower_strip :: "ucd \<Rightarrow> str \<Rightarrow> str" where
  "lower_strip U l = strip U (strip_chars heading_chars (lower U l))"

fun guess_name_loop :: "ucd \<Rightarrow> str list \<Rightarrow> str option" where
  "guess_name_loop U [] = None"
| "guess_name_loop U (l # ls) =
     (let low = lower_strip U l in
      if list_ex (\<lambda>b. contains b low) blacklist then guess_name_loop U ls
      else if of_char CHR ''@'' \<in> set l then guess_name_loop U ls
      else if 0 < length (filter (isdigit U) l) then guess_name_loop U ls
      else if 50 < length l then guess_name_loop U ls
      else let words = re_findall U (Rep name_word 1 None) l in
           if 2 \<le> length words \<and> length words \<le> 4 then Some (normalize U l)
           else guess_name_loop U ls)"

definition guess_name :: "ucd \<Rightarrow> str list \<Rightarrow> str option" where
  "guess_name U lines = guess_name_loop U (take 16 lines)"

record contacts =
  emails :: "str list"
  phones :: "str list"
  linkedin :: "str list"
  github :: "str list"
  portfolio :: "str list"

text \<open>\<^verbatim>\<open>sorted(set(xs))\<close>: the distinct elements in ascending (code point, lexicographic) order.\<close>

definition sorted_set :: "str list \<Rightarrow> str list" where
  "sorted_set xs = sort (remdups xs)"

definition keep_portfolio :: "ucd \<Rightarrow> str \<Rightarrow> bool" where
  "keep_portfolio U u =
     (let lu = lower U u in
      if contains (cps ''linkedin.com'') lu \<or> contains (cps ''github.com'') lu then False
      else if of_char CHR ''@'' \<in> set u then False
      else if length u < 10 then False
      else True)"

definition find_contacts :: "ucd \<Rightarrow> str \<Rightarrow> contacts" where
  "find_contacts U text =
     (let emails = sorted_set (re_findall U (EMAIL_RE U) text);
          phones = sorted_set (map (strip U) (re_findall U (PHONE_RE U) text));
          phones = take 3 (filter (\<lambda>p. 9 \<le> length (re_sub U (Cls (\<lambda>c. \<not> isdecimal U c)) [] p)) phones);
          linkedin = take 2 (sorted_set (re_findall U (LINKEDIN_RE U) text));
          github = take 2 (sorted_set (re_findall U (GITHUB_RE U) text));
          other = filter (keep_portfolio U) (re_findall U PORTFOLIO_RE text);
          other = take 2 (sorted_set other)
      in \<lparr>emails = emails, phones = phones, linkedin = linkedin, github = github,
          portfolio = other\<rparr>)"

text \<open>
  A dictionary whose order matters is an association list; \<open>dict_set\<close> is the
  assignment \<^verbatim>\<open>d[k] = v\<close> (a new key goes to the end), \<open>dict_get d k dflt\<close> is
  \<^verbatim>\<open>d.get(k, default)\<close>.
\<close>

fun dict_set :: "'k \<Rightarrow> 'v \<Rightarrow> ('k \<times> 'v) list \<Rightarrow> ('k \<times> 'v) list" where
  "dict_set k v [] = [(k, v)]"
| "dict_set k v ((k', v') # d) = (if k' = k then (k, v) # d else (k', v') # dict_set k v d)"

definition dict_get :: "('k \<times> 'v) list \<Rightarrow> 'k \<Rightarrow> 'v \<Rightarrow> 'v" where
  "dict_get d k dflt = (case map_of d k of None \<Rightarrow> dflt | Some v \<Rightarrow> v)"

definition alias_to_key :: "ucd \<Rightarrow> (str \<times> string) list" where
  "alias_to_key U =
     fold (\<lambda>(key, aliases) d. fold (\<lambda>a d'. dict_set (lower U (cps a)) key d') aliases d)
          SECTION_ALIASES []"

definition heading_key :: "ucd \<Rightarrow> str \<Rightarrow> string option" where
  "heading_key U line =
     (let l = lower_strip U line in
      if 44 < length l then None else map_of (alias_to_key U) l)"

definition empty_sections :: "(string \<times> str list) list" where
  "empty_sections = map (\<lambda>(k, aliases). (k, [])) SECTION_ALIASES @ [(''_unknown'', [])]"

fun sectionize_loop ::
  "ucd \<Rightarrow> str list \<Rightarrow> string \<Rightarrow> (string \<times> str list) list \<Rightarrow> (string \<times> str list) list" where
  "sectionize_loop U [] current sections = sections"
| "sectionize_loop U (line # lines) current sections =
     (case heading_key U line of
        Some key \<Rightarrow> if key \<noteq> [] then sectionize_loop U lines key sections
                    else sectionize_loop U lines current
                           (dict_set current (dict_get sections current [] @ [line]) sections)
      | None \<Rightarrow> sectionize_loop U lines current
                  (dict_set current (dict_get sections current [] @ [line]) sections))"

definition sectionize :: "ucd \<Rightarrow> str list \<Rightarrow> (string \<times> str list) list" where
  "sectionize U lines = sectionize_loop U lines ''_unknown'' empty_sections"

definition category_prefix :: "ucd \<Rightarrow> rx" where
  "category_prefix U = seqs [
     WordB,
     Cls alpha,
     Rep (\<lambda>c. alpha c \<or> isspace U c \<or> one_of ''/&-'' c) 2 (Some 30),
     lit '':'',
     Rep (isspace U) 0 None]"

definition skill_delimiter :: "cp \<Rightarrow> bool" where
  "skill_delimiter c = (c = bullet \<or> c = middle_dot \<or> c = 10 \<or> one_of ''|,;/'' c)"

text \<open>The second loop of \<open>split_skills\<close>: \<open>seen\<close> holds the lowercased skills kept so far.\<close>

fun dedup_loop :: "ucd \<Rightarrow> str list \<Rightarrow> str list \<Rightarrow> str list" where
  "dedup_loop U [] seen = []"
| "dedup_loop U (s # ss) seen =
     (let k = lower U s in
      if k \<in> set seen then dedup_loop U ss seen else s # dedup_loop U ss (k # seen))"

text \<open>The first loop of \<open>split_skills\<close>: the list \<^verbatim>\<open>cleaned\<close>.\<close>

definition cleaned_skills :: "ucd \<Rightarrow> str list \<Rightarrow> str list" where
  "cleaned_skills U skills_lines =
     (let t = join (cps '' '') skills_lines;
          t = re_sub U (category_prefix U) [] t;
          parts = re_split U (Rep skill_delimiter 1 None) t
      in filter (\<lambda>p. p \<noteq> [] \<and> \<not> 45 < length p) (map (normalize U) parts))"

definition split_skills :: "ucd \<Rightarrow> str list \<Rightarrow> str list" where
  "split_skills U skills_lines =
     (let cleaned = cleaned_skills U skills_lines;
          out = dedup_loop U cleaned []
      in take 70 out)"

record structured =
  name :: "str option"
  contacts :: contacts
  about :: str
  skills :: "str list"
  experience :: str
  projects :: str
  education :: str
  certifications :: str
  languages :: str
  raw_preview :: str
  sections_detected :: "(string \<times> nat) list"

definition block :: "ucd \<Rightarrow> (string \<times> str list) list \<Rightarrow> string \<Rightarrow> nat \<Rightarrow> str" where
  "block U sections key limit = strip U (join [10] (take limit (dict_get sections key [])))"

definition extract_structured :: "ucd \<Rightarrow> str \<Rightarrow> structured" where
  "extract_structured U text =
     (let lines = lines_from_text U text;
          sections = sectionize U lines
      in \<lparr>name = guess_name U lines,
          contacts = find_contacts U text,
          about = (if dict_get sections ''summary'' [] \<noteq> []
                   then normalize U (take 1400 (join (cps '' '') (dict_get sections ''summary'' [])))
                   else []),
          skills = split_skills U (dict_get sections ''skills'' []),
          experience = block U sections ''experience'' 120,
          projects = block U sections ''projects'' 120,
          education = block U sections ''education'' 90,
          certifications = block U sections ''certifications'' 70,
          languages = block U sections ''languages'' 30,
          raw_preview = join [10] (take 90 lines),
          sections_detected =
            map (\<lambda>(k, v). (k, length v)) (filter (\<lambda>(k, v). k \<noteq> ''_unknown'') sections)\<rparr>)"

section \<open>Floating point\<close>

text \<open>
  A Python \<^verbatim>\<open>float\<close> is an IEEE 754 binary64 number, here the rational number it denotes.
  The result of an operation is the exact result rounded to the nearest number with a
  53-bit significand, ties to the even significand (\<open>fl\<close>). The exponent range is not
  bounded in this model: the numbers of the source lie between \<open>2\<^sup>-\<^sup>4\<close> and the number of
  characters of a text, far from overflow and underflow. \<open>binade x\<close> is the exponent \<open>e\<close>
  with \<open>2\<^sup>e \<le> x < 2\<^sup>e\<^sup>+\<^sup>1\<close>. Python's \<^verbatim>\<open>round(x)\<close> rounds to the nearest integer,
  ties to the even one; \<^verbatim>\<open>round(x, 1)\<close> rounds the exact value to one decimal in the same
  way and returns the nearest float.
\<close>

definition round_half_even :: "rat \<Rightarrow> int" where
  "round_half_even x =
     (let n = \<lfloor>x\<rfloor>; d = x - of_int n
      in if d < 1/2 then n else if 1/2 < d then n + 1 else if even n then n else n + 1)"

definition binade :: "rat \<Rightarrow> int" where
  "binade x = (case quotient_of x of (p, q) \<Rightarrow>
      let k = bitlen p - bitlen q in if 2 powi k \<le> x then k else k - 1)"

definition fl :: "rat \<Rightarrow> rat" where
  "fl x = (if x = 0 then 0 else
     let e = binade \<bar>x\<bar> - 52 in of_int (round_half_even (x / 2 powi e)) * 2 powi e)"

definition fmul :: "rat \<Rightarrow> rat \<Rightarrow> rat" where
  "fmul x y = fl (x * y)"

definition fadd :: "rat \<Rightarrow> rat \<Rightarrow> rat" where
  "fadd x y = fl (x + y)"

definition fdiv :: "rat \<Rightarrow> rat \<Rightarrow> rat" where
  "fdiv x y = fl (x / y)"

definition float_of_int :: "int \<Rightarrow> rat" where
  "float_of_int n = fl (of_int n)"

definition round1 :: "rat \<Rightarrow> rat" where
  "round1 x = fl (of_int (round_half_even (x * 10)) / 10)"

text \<open>A bound on the rounding error of one operation whose exact result lies in \<open>[0, 127]\<close>.\<close>

definition eps :: rat where
  "eps = 1 / 2 ^ 47"

section \<open>Scoring\<close>

text \<open>
  Identifier-like strings of the source (dictionary keys, check keys and labels, statuses,
  grades, method names) are HOL strings; strings built from the text are code point
  lists.
\<close>

record check_item =
  key :: string
  label :: string
  score :: int
  status :: string
  note_text :: str

datatype jv = JNone | JBool bool | JInt int | JFloat rat | JStr string
  | JList "jv list" | JDict "(string \<times> jv) list"

record dashboard_score =
  score :: int
  issues :: int
  ats_parse_rate :: int
  checks :: "check_item list"
  ats_friendly :: bool
  grade :: string
  suggestions :: "str list"
  signals :: "(string \<times> jv) list"

definition clamp :: "'a::linorder \<Rightarrow> 'a \<Rightarrow> 'a \<Rightarrow> 'a" where
  "clamp v lo hi = max lo (min hi v)"

text \<open>
  The metadata handed to the scoring: the coordinator's dictionary for a PDF, the
  dictionary \<^verbatim>\<open>{"method": "python-docx", "paragraphs": ..., "tables": ...}\<close> for a DOCX, or
  the empty dictionary.
\<close>

datatype meta = Pdf_Meta pdf_meta | Docx_Meta nat nat | No_Meta

definition extraction_meta_dict :: "extraction_meta \<Rightarrow> jv" where
  "extraction_meta_dict m = JDict [
     (''method'', JStr (method_name m)),
     (''pages'', JInt (int (pages m))),
     (''per_page_characters'', JList (map (\<lambda>n. JInt (int n)) (per_page_characters m)))]"

definition meta_dict :: "meta \<Rightarrow> (string \<times> jv) list" where
  "meta_dict m =
     (case m of
        Pdf_Meta pm \<Rightarrow>
          [(''primary'', extraction_meta_dict (primary pm)),
           (''fallback'', (case fallback pm of None \<Rightarrow> JDict []
                                             | Some f \<Rightarrow> extraction_meta_dict f))]
      | Docx_Meta p t \<Rightarrow>
          [(''method'', JStr ''python-docx''), (''paragraphs'', JInt (int p)),
           (''tables'', JInt (int t))]
      | No_Meta \<Rightarrow> [])"

text \<open>
  The checks run one after the other and share three variables: the issue counter, the
  list of suggestions and the list of check items.
\<close>

record acc =
  acc_issues :: int
  acc_suggestions :: "str list"
  acc_checks :: "check_item list"

definition bump :: "int \<Rightarrow> acc \<Rightarrow> acc" where
  "bump n a = a\<lparr>acc_issues := acc_issues a + n\<rparr>"

definition suggest :: "str \<Rightarrow> acc \<Rightarrow> acc" where
  "suggest s a = a\<lparr>acc_suggestions := acc_suggestions a @ [s]\<rparr>"

definition append_check :: "check_item \<Rightarrow> acc \<Rightarrow> acc" where
  "append_check c a = a\<lparr>acc_checks := acc_checks a @ [c]\<rparr>"

definition status_of :: "int \<Rightarrow> string" where
  "status_of s = (if 85 \<le> s then ''pass'' else if 60 \<le> s then ''warn'' else ''fail'')"

definition ats_parse_check :: "bool \<Rightarrow> acc \<Rightarrow> int \<times> acc" where
  "ats_parse_check likely_scanned a =
     (if likely_scanned then
        (30, append_check \<lparr>key = ''ats_parse'', label = ''ATS Parse Rate'', score = 30,
                           status = ''fail'', note_text = cps ''Looks scanned or image-based.''\<rparr>
               (suggest (cps ''Export your resume as a text-based PDF (not scanned). If needed, run OCR before uploading.'')
                  (bump 1 a)))
      else
        (92, append_check \<lparr>key = ''ats_parse'', label = ''ATS Parse Rate'', score = 92,
                           status = ''pass'', note_text = cps ''Text extraction works.''\<rparr> a))"

definition contact_check :: "contacts \<Rightarrow> acc \<Rightarrow> int \<times> acc" where
  "contact_check c a =
     (let has_link = (linkedin c \<noteq> [] \<or> github c \<noteq> [] \<or> portfolio c \<noteq> []);
          contact_score = 100;
          note_parts = [];
          (contact_score, note_parts, a) =
            (if emails c = [] then
               (contact_score - 45, note_parts @ [cps ''No email found''],
                suggest (cps ''Add a professional email near the top in plain text.'') (bump 1 a))
             else (contact_score, note_parts, a));
          (contact_score, note_parts, a) =
            (if phones c = [] then
               (contact_score - 25, note_parts @ [cps ''No phone found''],
                suggest (cps ''Add a phone number in plain text (include country code).'') (bump 1 a))
             else (contact_score, note_parts, a));
          (contact_score, note_parts, a) =
            (if \<not> has_link then
               (contact_score - 10, note_parts @ [cps ''No profile links found''],
                suggest (cps ''Add LinkedIn/GitHub/portfolio link in plain text.'') a)
             else (contact_score, note_parts, a));
          contact_score = clamp contact_score 0 100;
          status = status_of contact_score;
          a = (if status \<noteq> ''pass'' then bump 0 a else a)
      in (contact_score,
          append_check \<lparr>key = ''contact'', label = ''Contact Details'', score = contact_score,
                        status = status,
                        note_text = (if note_parts \<noteq> [] then join (cps '', '') note_parts
                                else cps ''Looks complete.'')\<rparr> a))"

definition sections_check :: "(string \<times> nat) list \<Rightarrow> acc \<Rightarrow> int \<times> acc" where
  "sections_check sec a =
     (let has_skills = (0 < dict_get sec ''skills'' 0);
          has_edu = (0 < dict_get sec ''education'' 0);
          has_exp_or_proj = (0 < dict_get sec ''experience'' 0 \<or> 0 < dict_get sec ''projects'' 0);
          sec_score = 100;
          missing = [];
          (sec_score, missing, a) =
            (if \<not> has_skills then
               (sec_score - 35, missing @ [cps ''Skills''],
                suggest (cps ''Add a clear 'Skills' section with keywords (tools, languages, platforms).'')
                  (bump 1 a))
             else (sec_score, missing, a));
          (sec_score, missing, a) =
            (if \<not> has_edu then
               (sec_score - 20, missing @ [cps ''Education''],
                suggest (cps ''Add an 'Education' section with degree + dates.'') (bump 1 a))
             else (sec_score, missing, a));
          (sec_score, missing, a) =
            (if \<not> has_exp_or_proj then
               (sec_score - 35, missing @ [cps ''Experience/Projects''],
                suggest (cps ''Add 'Experience' or 'Projects' with impact bullets and tech used.'')
                  (bump 1 a))
             else (sec_score, missing, a));
          sec_score = clamp sec_score 0 100
      in (sec_score,
          append_check \<lparr>key = ''sections'', label = ''Sections'', score = sec_score,
                        status = status_of sec_score,
                        note_text = (if missing \<noteq> [] then cps ''Missing: '' @ join (cps '', '') missing
                                else cps ''All key sections detected.'')\<rparr> a))"

definition impact_check :: "nat \<Rightarrow> acc \<Rightarrow> int \<times> acc" where
  "impact_check nums a =
     (let impact_score = 80;
          (impact_score, note, status, a) =
            (if nums < 6 then
               (impact_score - 25, cps ''Few numbers/metrics found.'', ''warn'',
                suggest (cps ''Add measurable results: %, time saved, users, revenue, speed, KPIs.'')
                  (bump 1 a))
             else (92, cps ''Good amount of metrics.'', ''pass'', a))
      in (impact_score,
          append_check \<lparr>key = ''impact'', label = ''Quantifying Impact'',
                        score = clamp impact_score 0 100, status = status, note_text = note\<rparr> a))"

text \<open>\<^verbatim>\<open>str(n)\<close> for a count.\<close>

function str_of_nat :: "nat \<Rightarrow> str" where
  "str_of_nat n = (if n < 10 then [48 + n] else str_of_nat (n div 10) @ [48 + n mod 10])"
  by pat_completeness auto
termination
  by (relation "measure id") auto

text \<open>
  The frequency dictionary of the repetition check, in first-seen order, and
  \<^verbatim>\<open>sorted(freq.items(), key=lambda x: x[1], reverse=True)\<close>: a stable sort by descending
  count.
\<close>

definition count_word :: "str \<Rightarrow> (str \<times> nat) list \<Rightarrow> (str \<times> nat) list" where
  "count_word w freq = dict_set w (dict_get freq w 0 + 1) freq"

definition sorted_desc :: "(str \<times> nat) list \<Rightarrow> (str \<times> nat) list" where
  "sorted_desc items = rev (sort_key snd (rev items))"

definition top_words :: "ucd \<Rightarrow> str list \<Rightarrow> (str \<times> nat) list" where
  "top_words U words =
     (let low_words = map (lower U) (filter (\<lambda>w. 4 \<le> length w) words);
          freq = fold count_word low_words []
      in take 6 (sorted_desc freq))"

definition repetition_check :: "ucd \<Rightarrow> str list \<Rightarrow> acc \<Rightarrow> int \<times> acc" where
  "repetition_check U words a =
     (let top = top_words U words
      in (case top of
            (w, n) # _ \<Rightarrow>
              if 18 \<le> n then
                (65, append_check \<lparr>key = ''repetition'', label = ''Repetition'', score = 65,
                       status = ''warn'',
                       note_text = cps ''High repetition of ''  @ [39] @ w @ [39] @ cps '' ('' @ str_of_nat n @ cps ''x).''\<rparr>
                       (suggest (cps ''Reduce repeated words; vary action verbs and rewrite duplicated phrases.'')
                          (bump 1 a)))
              else
                (90, append_check \<lparr>key = ''repetition'', label = ''Repetition'', score = 90,
                       status = ''pass'', note_text = cps ''Looks fine.''\<rparr> a)
          | [] \<Rightarrow>
              (90, append_check \<lparr>key = ''repetition'', label = ''Repetition'', score = 90,
                     status = ''pass'', note_text = cps ''Looks fine.''\<rparr> a)))"

definition en_dash :: cp where
  "en_dash = 8211"

definition brevity_check :: "nat \<Rightarrow> acc \<Rightarrow> int \<times> acc" where
  "brevity_check word_count a =
     (if word_count < 220 then
        (62, append_check \<lparr>key = ''brevity'', label = ''Format & Brevity'', score = 62,
               status = ''warn'', note_text = cps ''Resume is short (low keyword coverage).''\<rparr>
               (suggest (cps ''Add more relevant bullets, projects, tools, and responsibilities.'')
                  (bump 1 a)))
      else if 1200 < word_count then
        (60, append_check \<lparr>key = ''brevity'', label = ''Format & Brevity'', score = 60,
               status = ''warn'', note_text = cps ''Resume is long (harder to scan).''\<rparr>
               (suggest (cps ''Aim for 1'' @ [en_dash] @ cps ''2 pages and prioritize relevant content.'')
                  (bump 1 a)))
      else
        (92, append_check \<lparr>key = ''brevity'', label = ''Format & Brevity'', score = 92,
               status = ''pass'', note_text = cps ''Length looks reasonable.''\<rparr> a))"

definition grammar_check :: "nat \<Rightarrow> nat \<Rightarrow> acc \<Rightarrow> int \<times> acc" where
  "grammar_check caps weird a =
     (if 25 < caps \<or> 80 < weird then
        (65, append_check \<lparr>key = ''grammar'', label = ''Spelling & Grammar'', score = 65,
               status = ''warn'',
               note_text = cps ''Formatting noise detected (icons/symbols/caps).''\<rparr>
               (suggest (cps ''Avoid too many icons/symbols; keep headings consistent and readable.'')
                  (bump 1 a)))
      else
        (86, append_check \<lparr>key = ''grammar'', label = ''Spelling & Grammar'', score = 86,
               status = ''pass'', note_text = cps ''Basic check only (offline).''\<rparr> a))"

text \<open>The weighted sum, evaluated from left to right in floating point.\<close>

definition weighted_sum :: "int \<Rightarrow> int \<Rightarrow> int \<Rightarrow> int \<Rightarrow> int \<Rightarrow> int \<Rightarrow> int \<Rightarrow> rat" where
  "weighted_sum ats_parse contact_score sec_score impact_score rep_score brev_score grammar_score =
     fadd (fadd (fadd (fadd (fadd (fadd
       (fmul (fl (30 / 100)) (float_of_int ats_parse))
       (fmul (fl (15 / 100)) (float_of_int contact_score)))
       (fmul (fl (15 / 100)) (float_of_int sec_score)))
       (fmul (fl (12 / 100)) (float_of_int impact_score)))
       (fmul (fl (10 / 100)) (float_of_int rep_score)))
       (fmul (fl (10 / 100)) (float_of_int brev_score)))
       (fmul (fl (8 / 100)) (float_of_int grammar_score))"

definition overall_score :: "int \<Rightarrow> int \<Rightarrow> int \<Rightarrow> int \<Rightarrow> int \<Rightarrow> int \<Rightarrow> int \<Rightarrow> int" where
  "overall_score ats_parse contact_score sec_score impact_score rep_score brev_score grammar_score =
     round_half_even
       (clamp (weighted_sum ats_parse contact_score sec_score impact_score rep_score brev_score
                 grammar_score) 0 100)"

definition grade_of :: "int \<Rightarrow> string" where
  "grade_of overall =
     (if 90 \<le> overall then ''Excellent''
      else if 80 \<le> overall then ''Great''
      else if 70 \<le> overall then ''Good''
      else if 60 \<le> overall then ''Fair''
      else ''Needs work'')"

text \<open>
  An assignment of sub-scores to the seven checks, and the overall score it yields.
\<close>

datatype check = Ats_parse | Contact | Sections | Impact | Repetition | Brevity | Grammar

definition overall_of :: "(check \<Rightarrow> int) \<Rightarrow> int" where
  "overall_of v = overall_score (v Ats_parse) (v Contact) (v Sections) (v Impact)
                    (v Repetition) (v Brevity) (v Grammar)"

text \<open>The patterns of the signals and checks, and \<^verbatim>\<open>text.count(sub)\<close>.\<close>

definition word_re :: "ucd \<Rightarrow> rx" where
  "word_re U = seqs [WordB, Rep (isword U) 1 None, WordB]"

definition bullet_re :: "ucd \<Rightarrow> rx" where
  "bullet_re U = seqs [Cls (\<lambda>c. c = bullet \<or> c = of_char CHR ''-''), Cls (isspace U)]"

definition year_re :: "ucd \<Rightarrow> rx" where
  "year_re U = seqs [
     WordB,
     Alt (seqs [lit ''20'', Rep (isdecimal U) 2 (Some 2)])
         (seqs [lit ''19'', Rep (isdecimal U) 2 (Some 2)]),
     WordB]"

definition number_re :: "ucd \<Rightarrow> rx" where
  "number_re U =
     Alt (seqs [WordB, Rep (isdecimal U) 1 None, lit ''%''])
         (seqs [WordB, Rep (isdecimal U) 1 None, WordB])"

definition caps_re :: rx where
  "caps_re = seqs [WordB, Rep (in_range CHR ''A'' CHR ''Z'') 4 None, WordB]"

definition weird_re :: "ucd \<Rightarrow> rx" where
  "weird_re U =
     Cls (\<lambda>c. \<not> (isword U c \<or> isspace U c \<or> c = bullet \<or> one_of ''-,.;:/()@+%#&'' c))"

fun count_sub :: "str \<Rightarrow> nat \<Rightarrow> str \<Rightarrow> nat" where
  "count_sub sub skip [] = (if skip = 0 \<and> sub = [] then 1 else 0)"
| "count_sub sub skip (c # cs) =
     (if 0 < skip then count_sub sub (skip - 1) cs
      else if take (length sub) (c # cs) = sub
      then 1 + count_sub sub (length sub - 1) cs
      else count_sub sub 0 cs)"

text \<open>
  The signals that the checks read: the primary extraction's metadata (\<^verbatim>\<open>meta.get("primary", {})\<close>),
  the page count, the average number of characters per page and the flag for a scanned
  document.
\<close>

definition primary_of :: "meta \<Rightarrow> extraction_meta option" where
  "primary_of meta = (case meta of Pdf_Meta pm \<Rightarrow> Some (primary pm) | _ \<Rightarrow> None)"

definition pages_of :: "meta \<Rightarrow> nat" where
  "pages_of meta =
     (case primary_of meta of Some p \<Rightarrow> (if pages p = 0 then 1 else pages p) | None \<Rightarrow> 1)"

definition avg_chars_of :: "str \<Rightarrow> meta \<Rightarrow> rat" where
  "avg_chars_of text meta =
     (let char_count = length text;
          per_page = (case primary_of meta of Some p \<Rightarrow> per_page_characters p | None \<Rightarrow> []);
          pages = pages_of meta
      in if per_page \<noteq> []
         then fdiv (of_nat (sum_list per_page)) (of_nat (max 1 (length per_page)))
         else fdiv (of_nat char_count) (of_nat (max 1 pages)))"

definition likely_scanned_of :: "str \<Rightarrow> meta \<Rightarrow> bool" where
  "likely_scanned_of text meta = (length text < 800 \<or> avg_chars_of text meta < 250)"

definition compute_dashboard :: "decoders \<Rightarrow> ucd \<Rightarrow> str \<Rightarrow> meta \<Rightarrow> structured \<Rightarrow> dashboard_score" where
  "compute_dashboard D U text meta structured =
     (let words = re_findall U (word_re U) text;
          word_count = length words;
          char_count = length text;
          primary = primary_of meta;
          pages = pages_of meta;
          avg_chars = avg_chars_of text meta;
          likely_scanned = likely_scanned_of text meta;
          bullet_count = length (re_findall U (bullet_re U) text);
          date_mentions = length (re_findall U (year_re U) text);
          possible_columns = (160 < count_sub (cps ''    '') 0 text);
          signals = [
            (''pages'', JInt (int pages)),
            (''word_count'', JInt (int word_count)),
            (''avg_chars_per_page'', JFloat (round1 avg_chars)),
            (''likely_scanned_pdf'', JBool likely_scanned),
            (''possible_columns'', JBool possible_columns),
            (''bullet_count'', JInt (int bullet_count)),
            (''date_mentions'', JInt (int date_mentions)),
            (''char_count'', JInt (int char_count)),
            (''extractor'', (case primary of Some p \<Rightarrow> JStr (method_name p) | None \<Rightarrow> JNone)),
            (''pymupdf_available'', JBool (fitz D \<noteq> None))];
          a = \<lparr>acc_issues = 0, acc_suggestions = [], acc_checks = []\<rparr>;
          (ats_parse, a) = ats_parse_check likely_scanned a;
          (contact_score, a) = contact_check (contacts structured) a;
          (sec_score, a) = sections_check (sections_detected structured) a;
          nums = length (re_findall U (number_re U) text);
          (impact_score, a) = impact_check nums a;
          (rep_score, a) = repetition_check U words a;
          (brev_score, a) = brevity_check word_count a;
          caps = length (re_findall U caps_re text);
          weird = length (re_findall U (weird_re U) text);
          (grammar_score, a) = grammar_check caps weird a;
          overall = overall_score ats_parse contact_score sec_score impact_score rep_score
                      brev_score grammar_score;
          dedup = dedup_loop U (acc_suggestions a) []
      in \<lparr>score = overall,
          issues = acc_issues a,
          ats_parse_rate = ats_parse,
          checks = acc_checks a,
          ats_friendly = (70 \<le> ats_parse \<and> 60 \<le> overall),
          grade = grade_of overall,
          suggestions = take 12 dedup,
          signals = signals\<rparr>)"

text \<open>
  Closed forms of what the contact, sections and repetition checks compute step by step.
\<close>

definition contact_score_of :: "contacts \<Rightarrow> int" where
  "contact_score_of c =
     100 - (if emails c = [] then 45 else 0) - (if phones c = [] then 25 else 0)
         - (if linkedin c = [] \<and> github c = [] \<and> portfolio c = [] then 10 else 0)"

definition sections_score_of :: "(string \<times> nat) list \<Rightarrow> int" where
  "sections_score_of sec =
     100 - (if 0 < dict_get sec ''skills'' 0 then 0 else 35)
         - (if 0 < dict_get sec ''education'' 0 then 0 else 20)
         - (if 0 < dict_get sec ''experience'' 0 \<or> 0 < dict_get sec ''projects'' 0 then 0 else 35)"

definition repetitive :: "ucd \<Rightarrow> str list \<Rightarrow> bool" where
  "repetitive U words = (case top_words U words of [] \<Rightarrow> False | (w, n) # _ \<Rightarrow> 18 \<le> n)"

section \<open>The analysis of an upload\<close>

definition endswith :: "str \<Rightarrow> str \<Rightarrow> bool" where
  "endswith s suf = (length suf \<le> length s \<and> drop (length s - length suf) s = suf)"

definition empty_structured :: structured where
  "empty_structured = \<lparr>
     name = None,
     contacts = \<lparr>emails = [], phones = [], linkedin = [], github = [], portfolio = []\<rparr>,
     about = [], skills = [], experience = [], projects = [], education = [],
     certifications = [], languages = [], raw_preview = [], sections_detected = []\<rparr>"

definition degraded_dashboard :: "meta \<Rightarrow> dashboard_score" where
  "degraded_dashboard meta = \<lparr>
     score = 20, issues = 1, ats_parse_rate = 10, checks = [],
     ats_friendly = False, grade = ''Needs work'',
     suggestions = [cps ''No text could be extracted. If this is a scanned PDF, run OCR or export as a text-based PDF.''],
     signals = fold (\<lambda>(k, v) d. dict_set k v d) (meta_dict meta)
                 [(''extraction_failed'', JBool True)]\<rparr>"

record response =
  filename :: str
  meta :: meta
  structured :: structured
  dashboard :: dashboard_score

text \<open>
  The first half of \<open>analyze\<close>: the file name, the checks of the upload and the extraction
  by the file name's extension. It returns the name, the text and the metadata.
\<close>

definition extract_upload ::
  "decoders \<Rightarrow> ucd \<Rightarrow> str option \<Rightarrow> bytes \<Rightarrow> error + str \<times> str \<times> meta" where
  "extract_upload D U file_name data =
     (let name = (case file_name of None \<Rightarrow> cps ''resume''
                  | Some n \<Rightarrow> if n = [] then cps ''resume'' else n);
          low = lower U name
      in if data = [] \<or> length data < 200 then Inl (HTTP_400 ''Empty or invalid file.'')
         else if endswith low (cps ''.pdf'') then
           (case fst (extract_text_from_pdf D U data []) of
              Inl e \<Rightarrow> Inl e
            | Inr (text, pm) \<Rightarrow> Inr (name, text, Pdf_Meta pm))
         else if endswith low (cps ''.docx'') then
           (case extract_text_from_docx D U data of
              Inl e \<Rightarrow> Inl e
            | Inr (text, p, t) \<Rightarrow> Inr (name, text, Docx_Meta p t))
         else Inl (HTTP_400 ''Upload a PDF or DOCX file.''))"

definition analyze :: "decoders \<Rightarrow> ucd \<Rightarrow> str option \<Rightarrow> bytes \<Rightarrow> error + response" where
  "analyze D U file_name data =
     (case extract_upload D U file_name data of
        Inl e \<Rightarrow> Inl e
      | Inr (name', text, meta') \<Rightarrow>
          Inr \<lparr>filename = name',
               meta = meta',
               structured = (if text \<noteq> [] then extract_structured U text
                             else empty_structured),
               dashboard = (if text \<noteq> [] then
                              compute_dashboard D U text meta' (extract_structured U text)
                            else degraded_dashboard meta')\<rparr>)"

section \<open>Sample inputs\<close>

text \<open>
  Decoders for a one-page PDF in which PyMuPDF recovers less text than pdfplumber, and
  decoders that recover no text at all.
\<close>

definition sample_decoders :: decoders where
  "sample_decoders = \<lparr>
     fitz = Some (\<lambda>b. Inr [Some (cps ''ab'')]),
     pdfplumber = (\<lambda>b. Inr [Some (cps ''abc'')]),
     docx = (\<lambda>b. Inl Decoder_Error)\<rparr>"

definition blank_decoders :: decoders where
  "blank_decoders = \<lparr>
     fitz = None,
     pdfplumber = (\<lambda>b. Inr [None]),
     docx = (\<lambda>b. Inl Decoder_Error)\<rparr>"



definition sample_upload :: bytes where
  "sample_upload = replicate 200 0"

text \<open>The dashboard of the one-letter text \<^verbatim>\<open>x\<close> with no contacts and no sections.\<close>

definition sample_dashboard :: dashboard_score where
  "sample_dashboard = compute_dashboard blank_decoders ascii_ucd (cps ''x'') No_Meta empty_structured"

section \<open>Properties of the extraction coordinator\<close>

lemma cps_simps: "cps [] = []" "cps (c # s) = of_char c # cps s"
  by (simp_all add: cps_def)

lemma length_cps [simp]: "length (cps s) = length s"
  by (simp add: cps_def)

lemma ascii_ucd_simps [simp]:
  "lower ascii_ucd = map ascii_tolower"
  "isspace ascii_ucd = ascii_space"
  "isdigit ascii_ucd = ascii_digit"
  "isword ascii_ucd = (\<lambda>c. ascii_upper c \<or> ascii_lower c \<or> ascii_digit c \<or> c = 95)"
  "isdecimal ascii_ucd = ascii_digit"
  "ignorecase ascii_ucd = (\<lambda>c p. ascii_tolower c = ascii_tolower p)"
  by (simp_all add: ascii_ucd_def)

text \<open>
  C3. Suppose the primary strategy (PyMuPDF) returns \<open>text1\<close> with metadata \<open>meta1\<close>. Then
  the strategies the coordinator runs are PyMuPDF and, exactly when \<open>text1\<close> has fewer
  than 200 characters, pdfplumber after it. When pdfplumber ran and returned \<open>text2\<close> with
  \<open>meta2\<close>, the coordinator returns \<open>text2\<close> if it is strictly longer than \<open>text1\<close> and
  \<open>text1\<close> otherwise (so the primary wins a tie), and the metadata of the strategy whose
  text was dropped is under \<open>fallback\<close>. When pdfplumber did not run, \<open>text1\<close> is
  returned and \<open>fallback\<close> is empty.
\<close>

theorem extract_text_from_pdf_fallback:
  assumes "extract_text_pdf_pymupdf D U pdf_bytes 8 = Inr (text1, meta1)"
  shows "snd (extract_text_from_pdf D U pdf_bytes [])
           = (if length text1 < 200 then [PyMuPDF, PdfPlumber] else [PyMuPDF])
       \<and> (PdfPlumber \<in> set (snd (extract_text_from_pdf D U pdf_bytes [])) \<longleftrightarrow> length text1 < 200)
       \<and> (\<forall>text2 meta2.
             length text1 < 200 \<and> extract_text_pdf_pdfplumber D U pdf_bytes 8 = Inr (text2, meta2)
             \<longrightarrow> fst (extract_text_from_pdf D U pdf_bytes [])
                   = Inr (if length text1 < length text2
                          then (text2, \<lparr>primary = meta2, fallback = Some meta1\<rparr>)
                          else (text1, \<lparr>primary = meta1, fallback = Some meta2\<rparr>)))
       \<and> (\<not> length text1 < 200
             \<longrightarrow> fst (extract_text_from_pdf D U pdf_bytes [])
                   = Inr (text1, \<lparr>primary = meta1, fallback = None\<rparr>))"
  using assms
  by (auto simp: extract_text_from_pdf_def run_pymupdf_def run_pdfplumber_def
           split: sum.splits prod.splits)

theorem extract_text_from_pdf_fallback_witness:
  "extract_text_pdf_pymupdf sample_decoders ascii_ucd [] 8
     = Inr (cps ''ab'', \<lparr>method_name = ''pymupdf'', pages = 1, per_page_characters = [2]\<rparr>)
   \<and> extract_text_pdf_pdfplumber sample_decoders ascii_ucd [] 8
     = Inr (cps ''abc'', \<lparr>method_name = ''pdfplumber'', pages = 1, per_page_characters = [3]\<rparr>)
   \<and> extract_text_from_pdf sample_decoders ascii_ucd [] []
     = (Inr (cps ''abc'',
             \<lparr>primary = \<lparr>method_name = ''pdfplumber'', pages = 1, per_page_characters = [3]\<rparr>,
              fallback = Some \<lparr>method_name = ''pymupdf'', pages = 1, per_page_characters = [2]\<rparr>\<rparr>),
        [PyMuPDF, PdfPlumber])"
proof -
  have p: "extract_text_pdf_pymupdf sample_decoders ascii_ucd [] 8
     = Inr (cps ''ab'', \<lparr>method_name = ''pymupdf'', pages = 1, per_page_characters = [2]\<rparr>)"
    by (simp add: extract_text_pdf_pymupdf_def sample_decoders_def or_empty_def strip_def
          strip_chars_def ascii_space_def cps_simps)
  have q: "extract_text_pdf_pdfplumber sample_decoders ascii_ucd [] 8
     = Inr (cps ''abc'', \<lparr>method_name = ''pdfplumber'', pages = 1, per_page_characters = [3]\<rparr>)"
    by (simp add: extract_text_pdf_pdfplumber_def sample_decoders_def or_empty_def strip_def
          strip_chars_def ascii_space_def cps_simps)
  from extract_text_from_pdf_fallback[OF p] p q show ?thesis
    by (auto simp: prod_eq_iff)
qed

section \<open>Properties of the floating-point model\<close>

lemma rhe_lower: "\<lfloor>x\<rfloor> \<le> round_half_even x"
  by (simp add: round_half_even_def Let_def)

lemma rhe_upper: "round_half_even x \<le> \<lfloor>x\<rfloor> + 1"
  by (simp add: round_half_even_def Let_def)

lemma rhe_err: "\<bar>of_int (round_half_even x) - x\<bar> \<le> 1/2"
proof -
  have "of_int \<lfloor>x\<rfloor> \<le> x" "x < of_int \<lfloor>x\<rfloor> + 1" by linarith+
  then show ?thesis
    unfolding round_half_even_def Let_def by (auto simp: abs_le_iff)
qed

lemma rhe_of_int: "round_half_even (of_int n) = n"
  by (simp add: round_half_even_def Let_def)

lemma rhe_mono: "x \<le> y \<Longrightarrow> round_half_even x \<le> round_half_even y"
proof -
  assume xy: "x \<le> y"
  have fxy: "\<lfloor>x\<rfloor> \<le> \<lfloor>y\<rfloor>" using xy by (rule floor_mono)
  show ?thesis
  proof (cases "\<lfloor>x\<rfloor> = \<lfloor>y\<rfloor>")
    case True
    then show ?thesis using xy
      by (auto simp: round_half_even_def Let_def)
  next
    case False
    then have "\<lfloor>x\<rfloor> + 1 \<le> \<lfloor>y\<rfloor>" using fxy by simp
    then show ?thesis using rhe_upper[of x] rhe_lower[of y] by linarith
  qed
qed


lemma binade_aux:
  fixes p q :: int
  assumes "0 < p" "0 < q"
  shows "(2::rat) powi (bitlen p - bitlen q - 1) < of_int p / of_int q"
    and "of_int p / of_int q < (2::rat) powi (bitlen p - bitlen q + 1)"
proof -
  have bp: "2 ^ nat (bitlen p - 1) \<le> p" "p < 2 ^ nat (bitlen p)"
    using bitlen_bounds[OF assms(1)] by auto
  have bq: "2 ^ nat (bitlen q - 1) \<le> q" "q < 2 ^ nat (bitlen q)"
    using bitlen_bounds[OF assms(2)] by auto
  have pos: "0 < bitlen p" "0 < bitlen q"
    using assms bitlen_eq_zero_iff[of p] bitlen_eq_zero_iff[of q] bitlen_nonneg[of p] bitlen_nonneg[of q]
    by linarith+
  have P1: "(2::rat) powi (bitlen p - 1) \<le> of_int p"
  proof -
    have "(of_int (2 ^ nat (bitlen p - 1)) :: rat) \<le> of_int p"
      using bp(1) by (simp only: of_int_le_iff)
    then show ?thesis using pos by (simp add: power_int_def)
  qed
  have P2: "(of_int p :: rat) < 2 powi (bitlen p)"
  proof -
    have "(of_int p :: rat) < of_int (2 ^ nat (bitlen p))"
      using bp(2) by (simp only: of_int_less_iff)
    then show ?thesis using pos by (simp add: power_int_def)
  qed
  have Q1: "(2::rat) powi (bitlen q - 1) \<le> of_int q"
  proof -
    have "(of_int (2 ^ nat (bitlen q - 1)) :: rat) \<le> of_int q"
      using bq(1) by (simp only: of_int_le_iff)
    then show ?thesis using pos by (simp add: power_int_def)
  qed
  have Q2: "(of_int q :: rat) < 2 powi (bitlen q)"
  proof -
    have "(of_int q :: rat) < of_int (2 ^ nat (bitlen q))"
      using bq(2) by (simp only: of_int_less_iff)
    then show ?thesis using pos by (simp add: power_int_def)
  qed
  have qpos: "(0::rat) < of_int q" using assms by simp
  have ppos: "(0::rat) < of_int p" using assms by simp
  have E1: "(2::rat) powi (bitlen p - bitlen q - 1) = 2 powi (bitlen p - 1) / 2 powi (bitlen q)"
    by (simp add: power_int_diff)
  have E2: "(2::rat) powi (bitlen p - bitlen q + 1) = 2 powi (bitlen p) / 2 powi (bitlen q - 1)"
    by (simp add: power_int_diff power_int_add)
  have "2 powi (bitlen p - 1) / 2 powi (bitlen q) < (of_int p :: rat) / of_int q"
    using P1 Q2 qpos ppos
    by (intro frac_less2) auto
  then show "(2::rat) powi (bitlen p - bitlen q - 1) < of_int p / of_int q"
    by (simp only: E1)
  have "(of_int p :: rat) / of_int q < 2 powi (bitlen p) / 2 powi (bitlen q - 1)"
    using P2 Q1 qpos ppos
    by (intro frac_less) auto
  then show "of_int p / of_int q < (2::rat) powi (bitlen p - bitlen q + 1)"
    by (simp only: E2)
qed

lemma binade_bounds:
  assumes "0 < x"
  shows "2 powi binade x \<le> x" and "x < 2 powi (binade x + 1)"
proof -
  obtain p q where pq: "quotient_of x = (p, q)" by (cases "quotient_of x")
  have q: "0 < q" using pq by (rule quotient_of_denom_pos)
  have x: "x = of_int p / of_int q" using pq by (rule quotient_of_div)
  have p: "0 < p" using assms q x by (simp add: zero_less_divide_iff)
  note B = binade_aux[OF p q, folded x]
  show "2 powi binade x \<le> x"
    using B(1) by (auto simp: binade_def pq Let_def)
  show "x < 2 powi (binade x + 1)"
    using B(2) by (auto simp: binade_def pq Let_def not_le)
qed

lemma pow2_less_D: "(2::rat) powi m < 2 powi n \<Longrightarrow> m < n"
proof (rule ccontr)
  assume a: "(2::rat) powi m < 2 powi n" and "\<not> m < n"
  then have "n \<le> m" by simp
  then have "(2::rat) powi n \<le> 2 powi m" by (rule power_int_increasing) simp
  with a show False by simp
qed

lemma binade_unique:
  assumes "0 < x" "2 powi k \<le> x" "x < 2 powi (k + 1)"
  shows "binade x = k"
proof -
  have a: "(2::rat) powi binade x < 2 powi (k + 1)"
    using binade_bounds(1)[OF assms(1)] assms(3) by linarith
  have b: "(2::rat) powi k < 2 powi (binade x + 1)"
    using binade_bounds(2)[OF assms(1)] assms(2) by linarith
  have "binade x < k + 1" using a pow2_less_D by blast
  moreover have "k < binade x + 1" using b pow2_less_D by blast
  ultimately show ?thesis by linarith
qed

lemma binade_mono:
  assumes "0 < x" "x \<le> y"
  shows "binade x \<le> binade y"
proof -
  have "(2::rat) powi binade x < 2 powi (binade y + 1)"
    using binade_bounds(1)[OF assms(1)] binade_bounds(2)[of y] assms by linarith
  then have "binade x < binade y + 1" by (rule pow2_less_D)
  then show ?thesis by simp
qed


lemma fl_pos_eq:
  "0 < x \<Longrightarrow> fl x = of_int (round_half_even (x / 2 powi (binade x - 52))) * 2 powi (binade x - 52)"
  by (simp add: fl_def Let_def)

lemma fl_err:
  assumes "0 < x"
  shows "\<bar>fl x - x\<bar> \<le> 2 powi (binade x - 53)"
proof -
  define s :: rat where "s = 2 powi (binade x - 52)"
  have s: "0 < s" by (simp add: s_def)
  have "\<bar>of_int (round_half_even (x / s)) - x / s\<bar> * s \<le> (1/2) * s"
    using rhe_err[of "x / s"] s by (intro mult_right_mono) auto
  moreover have "\<bar>of_int (round_half_even (x / s)) - x / s\<bar> * s = \<bar>of_int (round_half_even (x / s)) * s - x\<bar>"
  proof -
    have "\<bar>of_int (round_half_even (x / s)) - x / s\<bar> * s = \<bar>(of_int (round_half_even (x / s)) - x / s) * s\<bar>"
      using s by (simp add: abs_mult)
    also have "(of_int (round_half_even (x / s)) - x / s) * s = of_int (round_half_even (x / s)) * s - x"
      using s by (simp add: field_simps)
    finally show ?thesis .
  qed
  moreover have "(1/2) * s = 2 powi (binade x - 53)"
    unfolding s_def by (simp add: power_int_diff)
  moreover have "fl x = of_int (round_half_even (x / s)) * s"
    using assms by (simp add: fl_pos_eq s_def)
  ultimately show ?thesis by simp
qed

lemma fl_range:
  assumes "0 < x"
  shows "2 powi binade x \<le> fl x" and "fl x \<le> 2 powi (binade x + 1)"
proof -
  define s :: rat where "s = 2 powi (binade x - 52)"
  have s: "0 < s" by (simp add: s_def)
  have lo: "2 ^ 52 \<le> x / s"
  proof -
    have "2 ^ 52 * s = 2 powi binade x"
      unfolding s_def by (simp add: power_int_diff)
    then show ?thesis using binade_bounds(1)[OF assms] s by (simp add: pos_le_divide_eq)
  qed
  have hi: "x / s \<le> 2 ^ 53"
  proof -
    have "2 ^ 53 * s = 2 powi (binade x + 1)"
      unfolding s_def by (simp add: power_int_diff power_int_add)
    then show ?thesis using binade_bounds(2)[OF assms] s by (simp add: pos_divide_le_eq)
  qed
  have "round_half_even (of_int (2 ^ 52)) \<le> round_half_even (x / s)"
    using lo by (intro rhe_mono) simp
  then have a: "(2 ^ 52 :: rat) \<le> of_int (round_half_even (x / s))"
    by (simp only: rhe_of_int) (metis of_int_le_iff of_int_numeral of_int_power)
  have "round_half_even (x / s) \<le> round_half_even (of_int (2 ^ 53))"
    using hi by (intro rhe_mono) simp
  then have b: "of_int (round_half_even (x / s)) \<le> (2 ^ 53 :: rat)"
    by (simp only: rhe_of_int) (metis of_int_le_iff of_int_numeral of_int_power)
  have "2 ^ 52 * s \<le> of_int (round_half_even (x / s)) * s"
    using a s by (intro mult_right_mono) auto
  moreover have "2 ^ 52 * s = 2 powi binade x"
    unfolding s_def by (simp add: power_int_diff)
  moreover have flx: "fl x = of_int (round_half_even (x / s)) * s"
    using assms by (simp add: fl_pos_eq s_def)
  ultimately show "2 powi binade x \<le> fl x" by simp
  have "of_int (round_half_even (x / s)) * s \<le> 2 ^ 53 * s"
    using b s by (intro mult_right_mono) auto
  moreover have "2 ^ 53 * s = 2 powi (binade x + 1)"
    unfolding s_def by (simp add: power_int_diff power_int_add)
  ultimately show "fl x \<le> 2 powi (binade x + 1)" using flx by simp
qed

lemma fl_nonneg: "0 \<le> x \<Longrightarrow> 0 \<le> fl x"
proof (cases "x = 0")
  case True then show ?thesis by (simp add: fl_def)
next
  case False
  assume "0 \<le> x"
  with False have x: "0 < x" by simp
  have "(0::rat) \<le> 2 powi binade x" by simp
  with fl_range(1)[OF x] show ?thesis by linarith
qed

lemma fl_mono:
  assumes "0 \<le> x" "x \<le> y"
  shows "fl x \<le> fl y"
proof (cases "x = 0")
  case True
  then show ?thesis using assms fl_nonneg[of y] by (simp add: fl_def)
next
  case False
  with assms have x: "0 < x" and y: "0 < y" by auto
  have bxy: "binade x \<le> binade y" using x assms(2) by (rule binade_mono)
  show ?thesis
  proof (cases "binade x = binade y")
    case True
    define s :: rat where "s = 2 powi (binade x - 52)"
    have s: "0 < s" by (simp add: s_def)
    have "x / s \<le> y / s" using assms(2) s by (simp add: divide_right_mono)
    then have "round_half_even (x / s) \<le> round_half_even (y / s)" by (rule rhe_mono)
    then have "(of_int (round_half_even (x / s)) :: rat) \<le> of_int (round_half_even (y / s))"
      by simp
    then have "of_int (round_half_even (x / s)) * s \<le> of_int (round_half_even (y / s)) * s"
      using s by (intro mult_right_mono) auto
    moreover have "fl x = of_int (round_half_even (x / s)) * s"
      using x by (simp add: fl_pos_eq s_def)
    moreover have "fl y = of_int (round_half_even (y / s)) * s"
      using y True by (simp add: fl_pos_eq s_def)
    ultimately show ?thesis by simp
  next
    case False
    with bxy have "binade x + 1 \<le> binade y" by simp
    then have "(2::rat) powi (binade x + 1) \<le> 2 powi binade y"
      by (rule power_int_increasing) simp
    with fl_range(2)[OF x] fl_range(1)[OF y] show ?thesis by linarith
  qed
qed

lemma fl_err_bound:
  assumes "0 \<le> x" "x < 2 powi k"
  shows "\<bar>fl x - x\<bar> \<le> 2 powi (k - 54)"
proof (cases "x = 0")
  case True then show ?thesis by (simp add: fl_def)
next
  case False
  with assms have x: "0 < x" by simp
  have "(2::rat) powi binade x < 2 powi k"
    using binade_bounds(1)[OF x] assms(2) by linarith
  then have "binade x < k" by (rule pow2_less_D)
  then have "binade x - 53 \<le> k - 54" by simp
  then have "(2::rat) powi (binade x - 53) \<le> 2 powi (k - 54)"
    by (rule power_int_increasing) simp
  with fl_err[OF x] show ?thesis by linarith
qed


lemma fl_1: "fl 1 = 1"
  by code_simp

lemma fl_close:
  assumes "0 \<le> x" "x \<le> 127"
  shows "\<bar>fl x - x\<bar> \<le> eps"
proof -
  have "x < 2 powi 7" using assms by simp
  from fl_err_bound[OF assms(1) this] show ?thesis
    by (simp add: eps_def power_int_minus)
qed

lemma weight_close:
  assumes "0 \<le> q" "q \<le> 1"
  shows "\<bar>fl q - q\<bar> \<le> eps" "0 \<le> fl q" "fl q \<le> 1"
proof -
  show "\<bar>fl q - q\<bar> \<le> eps" using assms by (intro fl_close) auto
  show "0 \<le> fl q" using assms by (intro fl_nonneg)
  show "fl q \<le> 1" using fl_mono[OF assms] by (simp add: fl_1)
qed

lemma prod_close:
  fixes w x q a e :: rat
  assumes "\<bar>w - q\<bar> \<le> e" "\<bar>x - a\<bar> \<le> e" "0 \<le> w" "w \<le> 1" "0 \<le> a" "a \<le> 100"
  shows "\<bar>w * x - q * a\<bar> \<le> 101 * e"
proof -
  have e: "0 \<le> e" using assms(1) by linarith
  have "w * x - q * a = w * (x - a) + a * (w - q)" by (simp add: algebra_simps)
  moreover have "\<bar>w * (x - a)\<bar> \<le> 1 * e"
    unfolding abs_mult using assms e by (intro mult_mono) auto
  moreover have "\<bar>a * (w - q)\<bar> \<le> 100 * e"
    unfolding abs_mult using assms e by (intro mult_mono) auto
  ultimately show ?thesis by linarith
qed

lemma term_close:
  fixes n :: int
  assumes q: "0 \<le> q" "q \<le> 1" and n: "0 \<le> n" "n \<le> 100"
  shows "\<bar>fmul (fl q) (float_of_int n) - q * of_int n\<bar> \<le> 102 * eps"
    and "0 \<le> fmul (fl q) (float_of_int n)"
proof -
  define w where "w = fl q"
  define x where "x = fl (of_int n)"
  have w: "\<bar>w - q\<bar> \<le> eps" "0 \<le> w" "w \<le> 1"
    unfolding w_def using weight_close[OF q] by auto
  have n': "(0::rat) \<le> of_int n" "(of_int n :: rat) \<le> 100" using n by auto
  have x: "\<bar>x - of_int n\<bar> \<le> eps" "0 \<le> x"
    unfolding x_def using n' by (auto intro!: fl_close fl_nonneg)
  have epos: "0 \<le> eps" "eps \<le> 1/1000" by (simp_all add: eps_def)
  have pc: "\<bar>w * x - q * of_int n\<bar> \<le> 101 * eps"
    using w x n' by (intro prod_close) auto
  have qn: "q * of_int n \<le> 100"
    using q n' by (metis mult_mono mult_1 zero_le_one order_trans)
  have qn0: "0 \<le> q * of_int n" using q n' by simp
  have wx: "0 \<le> w * x" using w x by simp
  have wx2: "w * x \<le> 127" using pc qn epos by linarith
  have "\<bar>fl (w * x) - w * x\<bar> \<le> eps" using wx wx2 by (rule fl_close)
  with pc show "\<bar>fmul (fl q) (float_of_int n) - q * of_int n\<bar> \<le> 102 * eps"
    unfolding fmul_def float_of_int_def w_def[symmetric] x_def[symmetric] by linarith
  show "0 \<le> fmul (fl q) (float_of_int n)"
    unfolding fmul_def float_of_int_def w_def[symmetric] x_def[symmetric]
    using wx by (rule fl_nonneg)
qed


lemma add_close:
  assumes "\<bar>x - x0\<bar> \<le> d1" "\<bar>y - y0\<bar> \<le> d2" "0 \<le> x" "0 \<le> y" "x0 + y0 \<le> 100" "d1 + d2 \<le> 1"
  shows "\<bar>fadd x y - (x0 + y0)\<bar> \<le> d1 + d2 + eps" and "0 \<le> fadd x y"
proof -
  have "0 \<le> x + y" using assms by simp
  moreover have "x + y \<le> 127" using assms by linarith
  ultimately have "\<bar>fl (x + y) - (x + y)\<bar> \<le> eps" by (rule fl_close)
  then show "\<bar>fadd x y - (x0 + y0)\<bar> \<le> d1 + d2 + eps"
    unfolding fadd_def using assms by linarith
  show "0 \<le> fadd x y" unfolding fadd_def using assms by (intro fl_nonneg) simp
qed

lemma weighted_sum_close:
  assumes "0 \<le> a" "a \<le> 100" "0 \<le> c" "c \<le> 100" "0 \<le> s" "s \<le> 100" "0 \<le> i" "i \<le> 100"
    "0 \<le> r" "r \<le> 100" "0 \<le> b" "b \<le> 100" "0 \<le> g" "g \<le> 100"
  shows "\<bar>weighted_sum a c s i r b g
           - of_int (30 * a + 15 * c + 15 * s + 12 * i + 10 * r + 10 * b + 8 * g) / 100\<bar> \<le> 720 * eps"
proof -
  define p1 where "p1 = fmul (fl (30 / 100)) (float_of_int a)"
  define p2 where "p2 = fmul (fl (15 / 100)) (float_of_int c)"
  define p3 where "p3 = fmul (fl (15 / 100)) (float_of_int s)"
  define p4 where "p4 = fmul (fl (12 / 100)) (float_of_int i)"
  define p5 where "p5 = fmul (fl (10 / 100)) (float_of_int r)"
  define p6 where "p6 = fmul (fl (10 / 100)) (float_of_int b)"
  define p7 where "p7 = fmul (fl (8 / 100)) (float_of_int g)"
  define e1 :: rat where "e1 = 30 / 100 * of_int a"
  define e2 :: rat where "e2 = 15 / 100 * of_int c"
  define e3 :: rat where "e3 = 15 / 100 * of_int s"
  define e4 :: rat where "e4 = 12 / 100 * of_int i"
  define e5 :: rat where "e5 = 10 / 100 * of_int r"
  define e6 :: rat where "e6 = 10 / 100 * of_int b"
  define e7 :: rat where "e7 = 8 / 100 * of_int g"
  have t1: "\<bar>p1 - e1\<bar> \<le> 102 * eps" "0 \<le> p1"
    unfolding p1_def e1_def using term_close[of "30 / 100" a] assms by simp_all
  have t2: "\<bar>p2 - e2\<bar> \<le> 102 * eps" "0 \<le> p2"
    unfolding p2_def e2_def using term_close[of "15 / 100" c] assms by simp_all
  have t3: "\<bar>p3 - e3\<bar> \<le> 102 * eps" "0 \<le> p3"
    unfolding p3_def e3_def using term_close[of "15 / 100" s] assms by simp_all
  have t4: "\<bar>p4 - e4\<bar> \<le> 102 * eps" "0 \<le> p4"
    unfolding p4_def e4_def using term_close[of "12 / 100" i] assms by simp_all
  have t5: "\<bar>p5 - e5\<bar> \<le> 102 * eps" "0 \<le> p5"
    unfolding p5_def e5_def using term_close[of "10 / 100" r] assms by simp_all
  have t6: "\<bar>p6 - e6\<bar> \<le> 102 * eps" "0 \<le> p6"
    unfolding p6_def e6_def using term_close[of "10 / 100" b] assms by simp_all
  have t7: "\<bar>p7 - e7\<bar> \<le> 102 * eps" "0 \<le> p7"
    unfolding p7_def e7_def using term_close[of "8 / 100" g] assms by simp_all
  have b1: "0 \<le> e1" "e1 \<le> 30" unfolding e1_def using assms by auto
  have b2: "0 \<le> e2" "e2 \<le> 15" unfolding e2_def using assms by auto
  have b3: "0 \<le> e3" "e3 \<le> 15" unfolding e3_def using assms by auto
  have b4: "0 \<le> e4" "e4 \<le> 12" unfolding e4_def using assms by auto
  have b5: "0 \<le> e5" "e5 \<le> 10" unfolding e5_def using assms by auto
  have b6: "0 \<le> e6" "e6 \<le> 10" unfolding e6_def using assms by auto
  have b7: "0 \<le> e7" "e7 \<le> 8" unfolding e7_def using assms by auto
  have ep: "0 \<le> eps" "eps \<le> 1 / 1000" by (simp_all add: eps_def)
  have x1: "e1 + e2 \<le> 100" using b1 b2 by linarith
  have y1: "102 * eps + 102 * eps \<le> 1" using ep by linarith
  note S1 = add_close[OF t1(1) t2(1) t1(2) t2(2) x1 y1]
  have x2: "e1 + e2 + e3 \<le> 100" using b1 b2 b3 by linarith
  have y2: "102 * eps + 102 * eps + eps + 102 * eps \<le> 1" using ep by linarith
  note S2 = add_close[OF S1(1) t3(1) S1(2) t3(2) x2 y2]
  have x3: "e1 + e2 + e3 + e4 \<le> 100" using b1 b2 b3 b4 by linarith
  have y3: "102 * eps + 102 * eps + eps + 102 * eps + eps + 102 * eps \<le> 1" using ep by linarith
  note S3 = add_close[OF S2(1) t4(1) S2(2) t4(2) x3 y3]
  have x4: "e1 + e2 + e3 + e4 + e5 \<le> 100" using b1 b2 b3 b4 b5 by linarith
  have y4: "102 * eps + 102 * eps + eps + 102 * eps + eps + 102 * eps + eps + 102 * eps \<le> 1"
    using ep by linarith
  note S4 = add_close[OF S3(1) t5(1) S3(2) t5(2) x4 y4]
  have x5: "e1 + e2 + e3 + e4 + e5 + e6 \<le> 100" using b1 b2 b3 b4 b5 b6 by linarith
  have y5: "102 * eps + 102 * eps + eps + 102 * eps + eps + 102 * eps + eps + 102 * eps + eps
              + 102 * eps \<le> 1"
    using ep by linarith
  note S5 = add_close[OF S4(1) t6(1) S4(2) t6(2) x5 y5]
  have x6: "e1 + e2 + e3 + e4 + e5 + e6 + e7 \<le> 100" using b1 b2 b3 b4 b5 b6 b7 by linarith
  have y6: "102 * eps + 102 * eps + eps + 102 * eps + eps + 102 * eps + eps + 102 * eps + eps
              + 102 * eps + eps + 102 * eps \<le> 1"
    using ep by linarith
  note S6 = add_close[OF S5(1) t7(1) S5(2) t7(2) x6 y6]
  have ws: "weighted_sum a c s i r b g = fadd (fadd (fadd (fadd (fadd (fadd p1 p2) p3) p4) p5) p6) p7"
    by (simp add: weighted_sum_def p1_def p2_def p3_def p4_def p5_def p6_def p7_def)
  have ex: "(of_int (30 * a + 15 * c + 15 * s + 12 * i + 10 * r + 10 * b + 8 * g) :: rat) / 100
            = e1 + e2 + e3 + e4 + e5 + e6 + e7"
    by (simp add: e1_def e2_def e3_def e4_def e5_def e6_def e7_def field_simps)
  show ?thesis unfolding ws ex using S6(1) by linarith
qed

lemma overall_score_nearest:
  assumes "0 \<le> a" "a \<le> 100" "0 \<le> c" "c \<le> 100" "0 \<le> s" "s \<le> 100" "0 \<le> i" "i \<le> 100"
    "0 \<le> r" "r \<le> 100" "0 \<le> b" "b \<le> 100" "0 \<le> g" "g \<le> 100"
  shows "0 \<le> overall_score a c s i r b g" "overall_score a c s i r b g \<le> 100"
    "\<bar>100 * overall_score a c s i r b g
       - (30 * a + 15 * c + 15 * s + 12 * i + 10 * r + 10 * b + 8 * g)\<bar> \<le> 50"
proof -
  define N where "N = 30 * a + 15 * c + 15 * s + 12 * i + 10 * r + 10 * b + 8 * g"
  define W where "W = weighted_sum a c s i r b g"
  define C where "C = clamp W 0 100"
  define R where "R = overall_score a c s i r b g"
  have R: "R = round_half_even C" by (simp add: R_def C_def W_def overall_score_def)
  have N: "0 \<le> N" "N \<le> 10000" unfolding N_def using assms by linarith+
  have NQ: "(0::rat) \<le> of_int N / 100" "(of_int N :: rat) / 100 \<le> 100"
    using N by simp_all
  have W: "\<bar>W - of_int N / 100\<bar> \<le> 720 * eps"
    unfolding W_def N_def using assms by (rule weighted_sum_close)
  have C0: "0 \<le> C" "C \<le> 100" by (simp_all add: C_def clamp_def)
  have C: "\<bar>C - of_int N / 100\<bar> \<le> 720 * eps"
    using W NQ unfolding C_def clamp_def by (auto simp: max_def min_def abs_le_iff)
  have "round_half_even (of_int 0) \<le> round_half_even C"
    using C0 by (intro rhe_mono) simp
  then show "0 \<le> overall_score a c s i r b g"
    unfolding R_def[symmetric] R by (simp only: rhe_of_int)
  have "round_half_even C \<le> round_half_even (of_int 100)"
    using C0 by (intro rhe_mono) simp
  then show "overall_score a c s i r b g \<le> 100"
    unfolding R_def[symmetric] R by (simp only: rhe_of_int)
  have "\<bar>of_int R - C\<bar> \<le> 1 / 2" unfolding R by (rule rhe_err)
  with C have "\<bar>(of_int R :: rat) - of_int N / 100\<bar> \<le> 1 / 2 + 720 * eps" by linarith
  moreover have "720 * eps < 1 / 200" by (simp add: eps_def)
  ultimately have "\<bar>(of_int R :: rat) - of_int N / 100\<bar> < 51 / 100" by linarith
  then have "\<bar>(of_int (100 * R - N) :: rat)\<bar> < of_int 51"
    by (simp add: abs_less_iff field_simps)
  then have "\<bar>100 * R - N\<bar> < 51"
    by (metis of_int_abs of_int_less_iff)
  then show "\<bar>100 * overall_score a c s i r b g
       - (30 * a + 15 * c + 15 * s + 12 * i + 10 * r + 10 * b + 8 * g)\<bar> \<le> 50"
    unfolding R_def N_def by linarith
qed

section \<open>Properties of the checks\<close>

lemma acc_simps [simp]:
  "acc_issues (bump n a) = acc_issues a + n"
  "acc_suggestions (bump n a) = acc_suggestions a"
  "acc_checks (bump n a) = acc_checks a"
  "acc_issues (suggest s a) = acc_issues a"
  "acc_suggestions (suggest s a) = acc_suggestions a @ [s]"
  "acc_checks (suggest s a) = acc_checks a"
  "acc_issues (append_check c a) = acc_issues a"
  "acc_suggestions (append_check c a) = acc_suggestions a"
  "acc_checks (append_check c a) = acc_checks a @ [c]"
  by (simp_all add: bump_def suggest_def append_check_def)

lemma ats_parse_check_fst: "fst (ats_parse_check b a) = (if b then 30 else 92)"
  by (simp add: ats_parse_check_def)

lemma ats_parse_check_issues:
  "acc_issues (snd (ats_parse_check b a)) = acc_issues a + (if b then 1 else 0)"
  by (simp add: ats_parse_check_def)

lemma ats_parse_check_items:
  "map check_item.score (acc_checks (snd (ats_parse_check b a)))
     = map check_item.score (acc_checks a) @ [if b then 30 else 92]"
  "map status (acc_checks (snd (ats_parse_check b a)))
     = map status (acc_checks a) @ [if b then ''fail'' else ''pass'']"
  "map key (acc_checks (snd (ats_parse_check b a))) = map key (acc_checks a) @ [''ats_parse'']"
  by (simp_all add: ats_parse_check_def)

lemma contact_check_fst:
  "fst (contact_check c a)
     = 100 - (if emails c = [] then 45 else 0) - (if phones c = [] then 25 else 0)
           - (if linkedin c = [] \<and> github c = [] \<and> portfolio c = [] then 10 else 0)"
  by (cases "emails c = []"; cases "phones c = []";
      cases "linkedin c = [] \<and> github c = [] \<and> portfolio c = []";
      simp add: contact_check_def Let_def clamp_def)

lemma contact_check_issues:
  "acc_issues (snd (contact_check c a))
     = acc_issues a + (if emails c = [] then 1 else 0) + (if phones c = [] then 1 else 0)"
  by (cases "emails c = []"; cases "phones c = []";
      cases "linkedin c = [] \<and> github c = [] \<and> portfolio c = []";
      simp add: contact_check_def Let_def clamp_def)

lemma contact_check_items:
  "map check_item.score (acc_checks (snd (contact_check c a)))
     = map check_item.score (acc_checks a) @ [fst (contact_check c a)]"
  "map status (acc_checks (snd (contact_check c a)))
     = map status (acc_checks a) @ [status_of (fst (contact_check c a))]"
  "map key (acc_checks (snd (contact_check c a))) = map key (acc_checks a) @ [''contact'']"
  by (cases "emails c = []"; cases "phones c = []";
      cases "linkedin c = [] \<and> github c = [] \<and> portfolio c = []";
      simp add: contact_check_def Let_def clamp_def)+

lemma sections_check_fst:
  "fst (sections_check sec a)
     = 100 - (if 0 < dict_get sec ''skills'' 0 then 0 else 35)
           - (if 0 < dict_get sec ''education'' 0 then 0 else 20)
           - (if 0 < dict_get sec ''experience'' 0 \<or> 0 < dict_get sec ''projects'' 0 then 0 else 35)"
  by (cases "0 < dict_get sec ''skills'' 0"; cases "0 < dict_get sec ''education'' 0";
      cases "0 < dict_get sec ''experience'' 0 \<or> 0 < dict_get sec ''projects'' 0";
      simp add: sections_check_def Let_def clamp_def)

lemma sections_check_issues:
  "acc_issues (snd (sections_check sec a))
     = acc_issues a + (if 0 < dict_get sec ''skills'' 0 then 0 else 1)
         + (if 0 < dict_get sec ''education'' 0 then 0 else 1)
         + (if 0 < dict_get sec ''experience'' 0 \<or> 0 < dict_get sec ''projects'' 0 then 0 else 1)"
  by (cases "0 < dict_get sec ''skills'' 0"; cases "0 < dict_get sec ''education'' 0";
      cases "0 < dict_get sec ''experience'' 0 \<or> 0 < dict_get sec ''projects'' 0";
      simp add: sections_check_def Let_def clamp_def)

lemma sections_check_items:
  "map check_item.score (acc_checks (snd (sections_check sec a)))
     = map check_item.score (acc_checks a) @ [fst (sections_check sec a)]"
  "map status (acc_checks (snd (sections_check sec a)))
     = map status (acc_checks a) @ [status_of (fst (sections_check sec a))]"
  "map key (acc_checks (snd (sections_check sec a))) = map key (acc_checks a) @ [''sections'']"
  by (cases "0 < dict_get sec ''skills'' 0"; cases "0 < dict_get sec ''education'' 0";
      cases "0 < dict_get sec ''experience'' 0 \<or> 0 < dict_get sec ''projects'' 0";
      simp add: sections_check_def Let_def clamp_def)+

lemma impact_check_fst: "fst (impact_check n a) = (if n < 6 then 55 else 92)"
  by (simp add: impact_check_def Let_def)

lemma impact_check_issues:
  "acc_issues (snd (impact_check n a)) = acc_issues a + (if n < 6 then 1 else 0)"
  by (simp add: impact_check_def Let_def)

lemma impact_check_items:
  "map check_item.score (acc_checks (snd (impact_check n a)))
     = map check_item.score (acc_checks a) @ [if n < 6 then 55 else 92]"
  "map status (acc_checks (snd (impact_check n a)))
     = map status (acc_checks a) @ [if n < 6 then ''warn'' else ''pass'']"
  "map key (acc_checks (snd (impact_check n a))) = map key (acc_checks a) @ [''impact'']"
  by (simp_all add: impact_check_def Let_def clamp_def)

lemma repetition_check_fst:
  "fst (repetition_check U ws a) = (if repetitive U ws then 65 else 90)"
  by (simp add: repetition_check_def repetitive_def Let_def split: list.splits prod.splits)

lemma repetition_check_issues:
  "acc_issues (snd (repetition_check U ws a)) = acc_issues a + (if repetitive U ws then 1 else 0)"
  by (simp add: repetition_check_def repetitive_def Let_def split: list.splits prod.splits)

lemma repetition_check_items:
  "map check_item.score (acc_checks (snd (repetition_check U ws a)))
     = map check_item.score (acc_checks a) @ [if repetitive U ws then 65 else 90]"
  "map status (acc_checks (snd (repetition_check U ws a)))
     = map status (acc_checks a) @ [if repetitive U ws then ''warn'' else ''pass'']"
  "map key (acc_checks (snd (repetition_check U ws a))) = map key (acc_checks a) @ [''repetition'']"
  by (simp_all add: repetition_check_def repetitive_def Let_def split: list.splits prod.splits)

lemma brevity_check_fst:
  "fst (brevity_check n a) = (if n < 220 then 62 else if 1200 < n then 60 else 92)"
  by (simp add: brevity_check_def)

lemma brevity_check_issues:
  "acc_issues (snd (brevity_check n a)) = acc_issues a + (if n < 220 \<or> 1200 < n then 1 else 0)"
  by (simp add: brevity_check_def)

lemma brevity_check_items:
  "map check_item.score (acc_checks (snd (brevity_check n a)))
     = map check_item.score (acc_checks a) @ [if n < 220 then 62 else if 1200 < n then 60 else 92]"
  "map status (acc_checks (snd (brevity_check n a)))
     = map status (acc_checks a) @ [if n < 220 \<or> 1200 < n then ''warn'' else ''pass'']"
  "map key (acc_checks (snd (brevity_check n a))) = map key (acc_checks a) @ [''brevity'']"
  by (simp_all add: brevity_check_def)

lemma grammar_check_fst:
  "fst (grammar_check cs w a) = (if 25 < cs \<or> 80 < w then 65 else 86)"
  by (simp add: grammar_check_def)

lemma grammar_check_issues:
  "acc_issues (snd (grammar_check cs w a)) = acc_issues a + (if 25 < cs \<or> 80 < w then 1 else 0)"
  by (simp add: grammar_check_def)

lemma grammar_check_items:
  "map check_item.score (acc_checks (snd (grammar_check cs w a)))
     = map check_item.score (acc_checks a) @ [if 25 < cs \<or> 80 < w then 65 else 86]"
  "map status (acc_checks (snd (grammar_check cs w a)))
     = map status (acc_checks a) @ [if 25 < cs \<or> 80 < w then ''warn'' else ''pass'']"
  "map key (acc_checks (snd (grammar_check cs w a))) = map key (acc_checks a) @ [''grammar'']"
  by (simp_all add: grammar_check_def)


lemmas check_fst = ats_parse_check_fst contact_check_fst sections_check_fst impact_check_fst
  repetition_check_fst brevity_check_fst grammar_check_fst

lemmas check_issues = ats_parse_check_issues contact_check_issues sections_check_issues
  impact_check_issues repetition_check_issues brevity_check_issues grammar_check_issues

lemmas check_items = ats_parse_check_items contact_check_items sections_check_items
  impact_check_items repetition_check_items brevity_check_items grammar_check_items

lemma compute_dashboard_sub_scores:
  "map check_item.score (checks (compute_dashboard D U text m st)) =
     [if likely_scanned_of text m then 30 else 92,
      contact_score_of (contacts st),
      sections_score_of (sections_detected st),
      if length (re_findall U (number_re U) text) < 6 then 55 else 92,
      if repetitive U (re_findall U (word_re U) text) then 65 else 90,
      if length (re_findall U (word_re U) text) < 220 then 62
      else if 1200 < length (re_findall U (word_re U) text) then 60 else 92,
      if 25 < length (re_findall U caps_re text) \<or> 80 < length (re_findall U (weird_re U) text)
      then 65 else 86]"
  unfolding compute_dashboard_def Let_def case_prod_beta contact_score_of_def sections_score_of_def
  by (simp add: check_items check_fst)

lemma compute_dashboard_statuses:
  "map status (checks (compute_dashboard D U text m st)) =
     [if likely_scanned_of text m then ''fail'' else ''pass'',
      status_of (contact_score_of (contacts st)),
      status_of (sections_score_of (sections_detected st)),
      if length (re_findall U (number_re U) text) < 6 then ''warn'' else ''pass'',
      if repetitive U (re_findall U (word_re U) text) then ''warn'' else ''pass'',
      if length (re_findall U (word_re U) text) < 220
         \<or> 1200 < length (re_findall U (word_re U) text) then ''warn'' else ''pass'',
      if 25 < length (re_findall U caps_re text) \<or> 80 < length (re_findall U (weird_re U) text)
      then ''warn'' else ''pass'']"
  unfolding compute_dashboard_def Let_def case_prod_beta contact_score_of_def sections_score_of_def
  by (simp add: check_items check_fst)

lemma compute_dashboard_keys:
  "map key (checks (compute_dashboard D U text m st)) =
     [''ats_parse'', ''contact'', ''sections'', ''impact'', ''repetition'', ''brevity'', ''grammar'']"
  unfolding compute_dashboard_def Let_def case_prod_beta
  by (simp add: check_items)

lemma compute_dashboard_issues:
  "issues (compute_dashboard D U text m st) =
     (if likely_scanned_of text m then 1 else 0)
     + ((if emails (contacts st) = [] then 1 else 0) + (if phones (contacts st) = [] then 1 else 0))
     + ((if 0 < dict_get (sections_detected st) ''skills'' 0 then 0 else 1)
        + (if 0 < dict_get (sections_detected st) ''education'' 0 then 0 else 1)
        + (if 0 < dict_get (sections_detected st) ''experience'' 0
              \<or> 0 < dict_get (sections_detected st) ''projects'' 0 then 0 else 1))
     + (if length (re_findall U (number_re U) text) < 6 then 1 else 0)
     + (if repetitive U (re_findall U (word_re U) text) then 1 else 0)
     + (if length (re_findall U (word_re U) text) < 220
           \<or> 1200 < length (re_findall U (word_re U) text) then 1 else 0)
     + (if 25 < length (re_findall U caps_re text) \<or> 80 < length (re_findall U (weird_re U) text)
        then 1 else 0)"
  unfolding compute_dashboard_def Let_def case_prod_beta
  by (simp add: check_issues)

lemma compute_dashboard_score:
  "dashboard_score.score (compute_dashboard D U text m st) =
     overall_score
       (if likely_scanned_of text m then 30 else 92)
       (contact_score_of (contacts st))
       (sections_score_of (sections_detected st))
       (if length (re_findall U (number_re U) text) < 6 then 55 else 92)
       (if repetitive U (re_findall U (word_re U) text) then 65 else 90)
       (if length (re_findall U (word_re U) text) < 220 then 62
        else if 1200 < length (re_findall U (word_re U) text) then 60 else 92)
       (if 25 < length (re_findall U caps_re text) \<or> 80 < length (re_findall U (weird_re U) text)
        then 65 else 86)"
  "grade (compute_dashboard D U text m st)
     = grade_of (dashboard_score.score (compute_dashboard D U text m st))"
  "ats_friendly (compute_dashboard D U text m st)
     = (\<not> likely_scanned_of text m \<and> 60 \<le> dashboard_score.score (compute_dashboard D U text m st))"
  "ats_parse_rate (compute_dashboard D U text m st) = (if likely_scanned_of text m then 30 else 92)"
  unfolding compute_dashboard_def Let_def case_prod_beta contact_score_of_def sections_score_of_def
  by (simp_all add: check_fst)

section \<open>Properties of the overall score\<close>

lemma sub_score_ranges:
  "0 \<le> contact_score_of c" "contact_score_of c \<le> 100"
  "0 \<le> sections_score_of sec" "sections_score_of sec \<le> 100"
  by (simp_all add: contact_score_of_def sections_score_of_def)

text \<open>
  C1. Let \<open>a, c, s, i, r, b, g\<close> be the sub-scores of the seven check items of a dashboard,
  in the order ATS parse, contact, sections, impact, repetition, brevity, grammar. The
  dashboard's score lies in \<open>[0, 100]\<close> and is an integer nearest to the weighted sum
  \<open>0.30 a + 0.15 c + 0.15 s + 0.12 i + 0.10 r + 0.10 b + 0.08 g\<close>: it differs from that sum
  by at most one half (stated after multiplying by 100). The grade is read off the score
  by the thresholds 90, 80, 70 and 60.
\<close>

theorem dashboard_score_weighted_sum:
  "\<exists>a c s i r b g.
      map check_item.score (checks (compute_dashboard D U text m st)) = [a, c, s, i, r, b, g]
    \<and> 0 \<le> dashboard_score.score (compute_dashboard D U text m st)
    \<and> dashboard_score.score (compute_dashboard D U text m st) \<le> 100
    \<and> \<bar>100 * dashboard_score.score (compute_dashboard D U text m st)
         - (30 * a + 15 * c + 15 * s + 12 * i + 10 * r + 10 * b + 8 * g)\<bar> \<le> 50
    \<and> grade (compute_dashboard D U text m st)
        = (if 90 \<le> dashboard_score.score (compute_dashboard D U text m st) then ''Excellent''
           else if 80 \<le> dashboard_score.score (compute_dashboard D U text m st) then ''Great''
           else if 70 \<le> dashboard_score.score (compute_dashboard D U text m st) then ''Good''
           else if 60 \<le> dashboard_score.score (compute_dashboard D U text m st) then ''Fair''
           else ''Needs work'')"
proof -
  define a :: int where "a = (if likely_scanned_of text m then 30 else 92)"
  define c where "c = contact_score_of (contacts st)"
  define s where "s = sections_score_of (sections_detected st)"
  define i :: int where "i = (if length (re_findall U (number_re U) text) < 6 then 55 else 92)"
  define r :: int where "r = (if repetitive U (re_findall U (word_re U) text) then 65 else 90)"
  define b :: int where "b = (if length (re_findall U (word_re U) text) < 220 then 62
        else if 1200 < length (re_findall U (word_re U) text) then 60 else 92)"
  define g :: int where "g = (if 25 < length (re_findall U caps_re text)
        \<or> 80 < length (re_findall U (weird_re U) text) then 65 else 86)"
  have ch: "map check_item.score (checks (compute_dashboard D U text m st)) = [a, c, s, i, r, b, g]"
    unfolding a_def c_def s_def i_def r_def b_def g_def by (rule compute_dashboard_sub_scores)
  have sc: "dashboard_score.score (compute_dashboard D U text m st) = overall_score a c s i r b g"
    unfolding a_def c_def s_def i_def r_def b_def g_def by (rule compute_dashboard_score(1))
  have rg: "0 \<le> a" "a \<le> 100" "0 \<le> c" "c \<le> 100" "0 \<le> s" "s \<le> 100" "0 \<le> i" "i \<le> 100"
      "0 \<le> r" "r \<le> 100" "0 \<le> b" "b \<le> 100" "0 \<le> g" "g \<le> 100"
    by (simp_all add: a_def c_def s_def i_def r_def b_def g_def sub_score_ranges)
  note N = overall_score_nearest[OF rg]
  show ?thesis
    apply (rule exI[of _ a], rule exI[of _ c], rule exI[of _ s], rule exI[of _ i],
           rule exI[of _ r], rule exI[of _ b], rule exI[of _ g])
    using ch N compute_dashboard_score(2)[of D U "text" m st] unfolding sc grade_of_def by simp
qed

lemma sample_signals:
  "re_findall ascii_ucd (word_re ascii_ucd) (cps ''x'') = [cps ''x'']"
  "re_findall ascii_ucd (number_re ascii_ucd) (cps ''x'') = []"
  "re_findall ascii_ucd caps_re (cps ''x'') = []"
  "re_findall ascii_ucd (weird_re ascii_ucd) (cps ''x'') = []"
  "\<not> repetitive ascii_ucd [cps ''x'']"
  "likely_scanned_of (cps ''x'') No_Meta"
  by code_simp+

lemma sample_dashboard_sub_scores:
  "map check_item.score (checks sample_dashboard) = [30, 20, 10, 55, 90, 62, 86]"
  unfolding sample_dashboard_def compute_dashboard_sub_scores
  by (simp add: sample_signals contact_score_of_def sections_score_of_def empty_structured_def
        dict_get_def)

theorem dashboard_score_weighted_sum_witness:
  "map check_item.score (checks sample_dashboard) = [30, 20, 10, 55, 90, 62, 86]
   \<and> dashboard_score.score sample_dashboard = 42
   \<and> \<bar>100 * dashboard_score.score sample_dashboard
        - (30 * 30 + 15 * 20 + 15 * 10 + 12 * 55 + 10 * 90 + 10 * 62 + 8 * 86)\<bar> \<le> (50::int)
   \<and> grade sample_dashboard = ''Needs work''"
proof -
  note ev = sample_dashboard_sub_scores
  obtain a c s i r b g where
    ch: "map check_item.score (checks sample_dashboard) = [a, c, s, i, r, b, g]"
    and near: "\<bar>100 * dashboard_score.score sample_dashboard
         - (30 * a + 15 * c + 15 * s + 12 * i + 10 * r + 10 * b + 8 * g)\<bar> \<le> 50"
    and gr: "grade sample_dashboard
        = (if 90 \<le> dashboard_score.score sample_dashboard then ''Excellent''
           else if 80 \<le> dashboard_score.score sample_dashboard then ''Great''
           else if 70 \<le> dashboard_score.score sample_dashboard then ''Good''
           else if 60 \<le> dashboard_score.score sample_dashboard then ''Fair''
           else ''Needs work'')"
    using dashboard_score_weighted_sum[of blank_decoders ascii_ucd "cps ''x''" No_Meta empty_structured]
    unfolding sample_dashboard_def[symmetric] by (elim exE conjE) (rule that; assumption)
  from ch ev have v: "a = 30" "c = 20" "s = 10" "i = 55" "r = 90" "b = 62" "g = 86" by simp_all
  from near have n: "\<bar>100 * dashboard_score.score sample_dashboard - 4218\<bar> \<le> 50"
    unfolding v by simp
  then have sc: "dashboard_score.score sample_dashboard = 42" by presburger
  show ?thesis using ev sc gr by simp
qed

lemma term_mono:
  fixes n n' :: int
  assumes "0 \<le> q" "0 \<le> n" "n \<le> n'"
  shows "fmul (fl q) (float_of_int n) \<le> fmul (fl q) (float_of_int n')"
    and "0 \<le> fmul (fl q) (float_of_int n)"
proof -
  have w: "0 \<le> fl q" using assms(1) by (rule fl_nonneg)
  have x: "0 \<le> fl (of_int n)" using assms(2) by (intro fl_nonneg) simp
  have xx: "fl (of_int n) \<le> fl (of_int n')" using assms(2,3) by (intro fl_mono) simp_all
  have "fl q * fl (of_int n) \<le> fl q * fl (of_int n')" using w xx by (rule mult_left_mono[rotated])
  moreover have p: "0 \<le> fl q * fl (of_int n)" using w x by simp
  ultimately show "fmul (fl q) (float_of_int n) \<le> fmul (fl q) (float_of_int n')"
    unfolding fmul_def float_of_int_def by (intro fl_mono)
  show "0 \<le> fmul (fl q) (float_of_int n)"
    unfolding fmul_def float_of_int_def using p by (rule fl_nonneg)
qed

lemma fadd_mono:
  assumes "0 \<le> x" "0 \<le> y" "x \<le> x'" "y \<le> y'"
  shows "fadd x y \<le> fadd x' y'" and "0 \<le> fadd x y"
proof -
  show "fadd x y \<le> fadd x' y'" unfolding fadd_def using assms by (intro fl_mono) simp_all
  show "0 \<le> fadd x y" unfolding fadd_def using assms by (intro fl_nonneg) simp
qed

lemma weighted_sum_mono:
  assumes "0 \<le> a" "a \<le> a'" "0 \<le> c" "c \<le> c'" "0 \<le> s" "s \<le> s'" "0 \<le> i" "i \<le> i'"
    "0 \<le> r" "r \<le> r'" "0 \<le> b" "b \<le> b'" "0 \<le> g" "g \<le> g'"
  shows "weighted_sum a c s i r b g \<le> weighted_sum a' c' s' i' r' b' g'"
proof -
  note T1 = term_mono[of "30 / 100" a a', OF _ assms(1,2)]
  note T2 = term_mono[of "15 / 100" c c', OF _ assms(3,4)]
  note T3 = term_mono[of "15 / 100" s s', OF _ assms(5,6)]
  note T4 = term_mono[of "12 / 100" i i', OF _ assms(7,8)]
  note T5 = term_mono[of "10 / 100" r r', OF _ assms(9,10)]
  note T6 = term_mono[of "10 / 100" b b', OF _ assms(11,12)]
  note T7 = term_mono[of "8 / 100" g g', OF _ assms(13,14)]
  have q: "(0::rat) \<le> 30 / 100" "(0::rat) \<le> 15 / 100" "(0::rat) \<le> 12 / 100"
    "(0::rat) \<le> 10 / 100" "(0::rat) \<le> 8 / 100" by simp_all
  note S1 = fadd_mono[OF T1(2)[OF q(1)] T2(2)[OF q(2)] T1(1)[OF q(1)] T2(1)[OF q(2)]]
  note S2 = fadd_mono[OF S1(2) T3(2)[OF q(2)] S1(1) T3(1)[OF q(2)]]
  note S3 = fadd_mono[OF S2(2) T4(2)[OF q(3)] S2(1) T4(1)[OF q(3)]]
  note S4 = fadd_mono[OF S3(2) T5(2)[OF q(4)] S3(1) T5(1)[OF q(4)]]
  note S5 = fadd_mono[OF S4(2) T6(2)[OF q(4)] S4(1) T6(1)[OF q(4)]]
  note S6 = fadd_mono[OF S5(2) T7(2)[OF q(5)] S5(1) T7(1)[OF q(5)]]
  show ?thesis unfolding weighted_sum_def by (rule S6(1))
qed

lemma overall_score_mono:
  assumes "0 \<le> a" "a \<le> a'" "0 \<le> c" "c \<le> c'" "0 \<le> s" "s \<le> s'" "0 \<le> i" "i \<le> i'"
    "0 \<le> r" "r \<le> r'" "0 \<le> b" "b \<le> b'" "0 \<le> g" "g \<le> g'"
  shows "overall_score a c s i r b g \<le> overall_score a' c' s' i' r' b' g'"
proof -
  have "weighted_sum a c s i r b g \<le> weighted_sum a' c' s' i' r' b' g'"
    using assms by (rule weighted_sum_mono)
  then have "clamp (weighted_sum a c s i r b g) 0 100 \<le> clamp (weighted_sum a' c' s' i' r' b' g') 0 100"
    by (auto simp: clamp_def max_def min_def)
  then show ?thesis unfolding overall_score_def by (rule rhe_mono)
qed

text \<open>
  C8. Take two assignments of sub-scores in \<open>[0, 100]\<close> to the seven checks that agree
  everywhere but at the check \<open>k\<close>. The assignment with the larger sub-score at \<open>k\<close>
  yields an overall score that is at least the other's.
\<close>

theorem overall_monotone:
  assumes "\<forall>j. 0 \<le> v j \<and> v j \<le> 100" "\<forall>j. 0 \<le> v' j \<and> v' j \<le> 100"
    and "\<forall>j. j \<noteq> k \<longrightarrow> v' j = v j" and "v k \<le> v' k"
  shows "overall_of v \<le> overall_of v'"
proof -
  have le: "v j \<le> v' j" for j using assms(3,4) by (cases "j = k") auto
  show ?thesis unfolding overall_of_def using assms(1) le by (intro overall_score_mono) auto
qed

theorem overall_monotone_witness:
  "overall_of (\<lambda>j. 50) \<le> overall_of ((\<lambda>j. 50)(Impact := 92))
   \<and> overall_of (\<lambda>j. 50) = 50 \<and> overall_of ((\<lambda>j. 50)(Impact := 92)) = 55"
proof -
  have "overall_of (\<lambda>j. 50) \<le> overall_of ((\<lambda>j. 50)(Impact := 92))"
    by (rule overall_monotone[where k = Impact]) auto
  moreover have "overall_of (\<lambda>j. 50) = 50"
    unfolding overall_of_def by code_simp
  moreover have "overall_of ((\<lambda>j. 50)(Impact := 92)) = 55"
    unfolding overall_of_def by code_simp
  ultimately show ?thesis by simp
qed

section \<open>Properties of the issue counter\<close>

text \<open>
  C6, as amended. The issue counter is the number of penalty conditions that hold among
  those the code counts: a text that looks scanned (ATS parse), no email and no phone
  (contact: up to two issues; a missing link lowers the sub-score but is not counted), no
  skills, no education and neither experience nor projects (sections: up to three
  issues), fewer than six numbers (impact), a word repeated 18 times or more
  (repetition), fewer than 220 or more than 1200 words (brevity) and formatting noise
  (grammar). The ATS parse, impact, repetition, brevity and grammar checks thus contribute
  one issue exactly when their status is not \<open>pass\<close>, and none otherwise.
\<close>

theorem issues_per_condition:
  "issues (compute_dashboard D U text m st) =
     (if map status (checks (compute_dashboard D U text m st)) ! 0 = ''pass'' then 0 else 1)
     + ((if emails (contacts st) = [] then 1 else 0) + (if phones (contacts st) = [] then 1 else 0))
     + ((if 0 < dict_get (sections_detected st) ''skills'' 0 then 0 else 1)
        + (if 0 < dict_get (sections_detected st) ''education'' 0 then 0 else 1)
        + (if 0 < dict_get (sections_detected st) ''experience'' 0
              \<or> 0 < dict_get (sections_detected st) ''projects'' 0 then 0 else 1))
     + (if map status (checks (compute_dashboard D U text m st)) ! 3 = ''pass'' then 0 else 1)
     + (if map status (checks (compute_dashboard D U text m st)) ! 4 = ''pass'' then 0 else 1)
     + (if map status (checks (compute_dashboard D U text m st)) ! 5 = ''pass'' then 0 else 1)
     + (if map status (checks (compute_dashboard D U text m st)) ! 6 = ''pass'' then 0 else 1)"
  unfolding compute_dashboard_statuses compute_dashboard_issues by simp

lemma sample_dashboard_statuses:
  "map status (checks sample_dashboard) = [''fail'', ''fail'', ''fail'', ''warn'', ''pass'', ''warn'', ''pass'']"
  unfolding sample_dashboard_def compute_dashboard_statuses
  by (simp add: sample_signals contact_score_of_def sections_score_of_def empty_structured_def
        dict_get_def status_of_def)

lemma sample_dashboard_issues: "issues sample_dashboard = 8"
  unfolding sample_dashboard_def compute_dashboard_issues
  by (simp add: sample_signals empty_structured_def dict_get_def)

text \<open>
  C6, as stated, fails: the dashboard of the text \<^verbatim>\<open>x\<close> has seven checks, five of them
  with a status other than \<open>pass\<close>, and eight issues.
\<close>

theorem issues_per_check_counterexample:
  "length (checks sample_dashboard) = 7
   \<and> issues sample_dashboard = 8
   \<and> issues sample_dashboard
       \<noteq> int (length (filter (\<lambda>s. s \<noteq> ''pass'') (map status (checks sample_dashboard))))"
proof -
  have "length (map status (checks sample_dashboard)) = 7"
    unfolding sample_dashboard_statuses by simp
  then have "length (checks sample_dashboard) = 7" by simp
  then show ?thesis
    unfolding sample_dashboard_issues sample_dashboard_statuses by simp
qed

theorem issues_per_condition_witness:
  "issues sample_dashboard = 1 + (1 + 1) + (1 + 1 + 1) + 1 + 0 + 1 + 0"
  using issues_per_condition[of blank_decoders ascii_ucd "cps ''x''" No_Meta empty_structured]
  unfolding sample_dashboard_def[symmetric] sample_dashboard_statuses
  by (simp add: empty_structured_def dict_get_def)

section \<open>Properties of the contact check\<close>

lemma contacts_extract_structured [simp]:
  "contacts (extract_structured U text) = find_contacts U text"
  by (simp add: extract_structured_def Let_def)






section \<open>Properties of the analysis of an upload\<close>

lemma degraded_signals:
  "map_of (signals (degraded_dashboard m)) ''extraction_failed'' = Some (JBool True)"
  by (cases m) (simp_all add: degraded_dashboard_def meta_dict_def)

lemma compute_dashboard_seven_checks: "length (checks (compute_dashboard D U text m st)) = 7"
proof -
  have "length (map key (checks (compute_dashboard D U text m st))) = 7"
    unfolding compute_dashboard_keys by simp
  then show ?thesis by simp
qed

text \<open>
  C4. When the extraction of an upload returns the empty text, the analysis returns the
  fixed degraded dashboard: score 20, ATS parse rate 10, grade \<open>Needs work\<close>, the single
  suggestion about OCR, the signal \<open>extraction_failed\<close> set to true, and no check items;
  it is not the result of running the seven checks on any input, which always has seven
  check items.
\<close>

theorem analyze_no_text:
  assumes "extract_upload D U file_name data = Inr (n, [], m)"
  shows "\<exists>r. analyze D U file_name data = Inr r
       \<and> dashboard r = degraded_dashboard m
       \<and> dashboard_score.score (dashboard r) = 20
       \<and> ats_parse_rate (dashboard r) = 10
       \<and> grade (dashboard r) = ''Needs work''
       \<and> suggestions (dashboard r)
           = [cps ''No text could be extracted. If this is a scanned PDF, run OCR or export as a text-based PDF.'']
       \<and> map_of (signals (dashboard r)) ''extraction_failed'' = Some (JBool True)
       \<and> checks (dashboard r) = []
       \<and> (\<forall>D' U' t' m' st'. dashboard r \<noteq> compute_dashboard D' U' t' m' st')"
proof -
  have ne: "degraded_dashboard m \<noteq> compute_dashboard D' U' t' m' st'" for D' U' t' m' st'
  proof
    assume "degraded_dashboard m = compute_dashboard D' U' t' m' st'"
    then have "length (checks (degraded_dashboard m)) = 7"
      by (simp add: compute_dashboard_seven_checks)
    then show False by (simp add: degraded_dashboard_def)
  qed
  show ?thesis
    using assms ne degraded_signals[of m]
    by (simp add: analyze_def degraded_dashboard_def)
qed

lemma sample_extract_upload:
  "extract_upload blank_decoders ascii_ucd (Some (cps ''cv.pdf'')) sample_upload
     = Inr (cps ''cv.pdf'', [],
            Pdf_Meta \<lparr>primary = \<lparr>method_name = ''pymupdf_unavailable'', pages = 0,
                                   per_page_characters = []\<rparr>,
                      fallback = Some \<lparr>method_name = ''pdfplumber'', pages = 1,
                                        per_page_characters = [0]\<rparr>\<rparr>)"
  by code_simp


theorem analyze_no_text_witness:
  "\<exists>r. analyze blank_decoders ascii_ucd (Some (cps ''cv.pdf'')) sample_upload = Inr r
       \<and> dashboard_score.score (dashboard r) = 20
       \<and> ats_parse_rate (dashboard r) = 10
       \<and> grade (dashboard r) = ''Needs work''
       \<and> length (suggestions (dashboard r)) = 1
       \<and> map_of (signals (dashboard r)) ''extraction_failed'' = Some (JBool True)
       \<and> checks (dashboard r) = []"
  using analyze_no_text[OF sample_extract_upload] by auto

end
